theory Spec2Isabelle
  imports Main
begin

section \<open>Python strings\<close>

text \<open>
  Python \<^verbatim>\<open>str\<close> values are modelled as \<^typ>\<open>string\<close>. The model covers ASCII text:
  \<^verbatim>\<open>str.lower\<close> maps the letters A..Z to a..z and leaves every other character alone,
  \<^verbatim>\<open>str.strip\<close> removes leading and trailing ASCII whitespace, and \<^verbatim>\<open>p in s\<close> is the
  contiguous-substring test.
\<close>

definition lower_char :: "char \<Rightarrow> char" where
  "lower_char c =
     (let n = (of_char c :: nat) in if 65 \<le> n \<and> n \<le> 90 then char_of (n + 32) else c)"

definition lower :: "string \<Rightarrow> string" where
  "lower s = map lower_char s"

definition is_space :: "char \<Rightarrow> bool" where
  "is_space c = (let n = (of_char c :: nat) in (9 \<le> n \<and> n \<le> 13) \<or> (28 \<le> n \<and> n \<le> 32))"

definition strip :: "string \<Rightarrow> string" where
  "strip s = rev (dropWhile is_space (rev (dropWhile is_space s)))"

text \<open>\<open>py_in p s\<close> is Python's \<^verbatim>\<open>p in s\<close> on strings.\<close>

fun py_in :: "string \<Rightarrow> string \<Rightarrow> bool" where
  "py_in p [] = (p = [])"
| "py_in p (c # cs) = (take (length p) (c # cs) = p \<or> py_in p cs)"

text \<open>Membership of any of a list of keywords: an \<^verbatim>\<open>or\<close>-chain of \<^verbatim>\<open>k in value\<close> tests.\<close>

definition any_in :: "string list \<Rightarrow> string \<Rightarrow> bool" where
  "any_in ks s = list_ex (\<lambda>k. py_in k s) ks"

text \<open>
  \<^verbatim>\<open>for item in items: if item in value: return item\<close>: the first list element that occurs
  in the value, if any.
\<close>

definition first_in :: "string list \<Rightarrow> string \<Rightarrow> string option" where
  "first_in ks s = find (\<lambda>k. py_in k s) ks"

section \<open>The Sentinel's normalizer (sentinel.py, \<^verbatim>\<open>Sentinel._validate_checkpoint_value\<close>)\<close>

definition valid_rooms :: "string list" where
  "valid_rooms = [''kitchen'', ''bathroom'', ''bedroom'', ''living room'', ''dining room'',
     ''basement'', ''attic'', ''office'', ''master bedroom'', ''guest bedroom'', ''den'',
     ''family room'', ''laundry room'', ''utility room'', ''garage'']"

definition valid_purposes :: "string list" where
  "valid_purposes = [''aesthetic'', ''functional'', ''repair'', ''modernize'', ''expand space'']"

definition validate_room :: "string \<Rightarrow> string" where
  "validate_room v = (case first_in valid_rooms v of Some room \<Rightarrow> room | None \<Rightarrow> v)"

definition validate_renovation_purpose :: "string \<Rightarrow> string" where
  "validate_renovation_purpose v =
     (case first_in valid_purposes v of
        Some purpose \<Rightarrow> purpose
      | None \<Rightarrow>
          if any_in [''look'', ''appearanc'', ''beaut''] v then ''aesthetic''
          else if any_in [''use'', ''practi'', ''utili''] v then ''functional''
          else if any_in [''fix'', ''broke'', ''damage''] v then ''repair''
          else if any_in [''updat'', ''renew'', ''fresh''] v then ''modernize''
          else if any_in [''more room'', ''bigger'', ''larger''] v then ''expand space''
          else v)"

definition budget_low_keywords :: "string list" where
  "budget_low_keywords = [''low'', ''cheap'', ''afford'', ''budget'', ''inexpens'']"

definition budget_medium_keywords :: "string list" where
  "budget_medium_keywords = [''medium'', ''moderate'', ''reasonable'', ''mid'']"

definition budget_high_keywords :: "string list" where
  "budget_high_keywords = [''high'', ''expens'', ''premium'', ''luxury'']"

definition validate_budget_range :: "string \<Rightarrow> string" where
  "validate_budget_range v =
     (if any_in budget_low_keywords v then ''low''
      else if any_in budget_medium_keywords v then ''medium''
      else if any_in budget_high_keywords v then ''high''
      else ''medium'')"

definition timeline_weeks_keywords :: "string list" where
  "timeline_weeks_keywords = [''quick'', ''fast'', ''soon'', ''week'', ''day'', ''asap'']"

definition timeline_months_keywords :: "string list" where
  "timeline_months_keywords = [''slow'', ''month'', ''time'', ''no rush'', ''not urgent'']"

definition validate_timeline :: "string \<Rightarrow> string" where
  "validate_timeline v =
     (if any_in timeline_weeks_keywords v then ''weeks''
      else if any_in timeline_months_keywords v then ''months''
      else ''months'')"

definition style_modern_keywords :: "string list" where
  "style_modern_keywords = [''modern'', ''contemporary'', ''sleek'', ''clean'']"

definition style_traditional_keywords :: "string list" where
  "style_traditional_keywords = [''tradition'', ''classic'', ''conventional'']"

definition style_rustic_keywords :: "string list" where
  "style_rustic_keywords = [''rustic'', ''country'', ''farmhouse'', ''cabin'', ''wood'']"

definition style_minimalist_keywords :: "string list" where
  "style_minimalist_keywords = [''minimal'', ''simple'', ''clean'']"

definition style_contemporary_keywords :: "string list" where
  "style_contemporary_keywords = [''contemp'', ''current'']"

definition validate_style_preference :: "string \<Rightarrow> string" where
  "validate_style_preference v =
     (if any_in style_modern_keywords v then ''modern''
      else if any_in style_traditional_keywords v then ''traditional''
      else if any_in style_rustic_keywords v then ''rustic''
      else if any_in style_minimalist_keywords v then ''minimalist''
      else if any_in style_contemporary_keywords v then ''contemporary''
      else ''modern'')"

definition feature_storage_keywords :: "string list" where
  "feature_storage_keywords = [''storage'', ''cabinet'', ''space'', ''organization'']"

definition feature_lighting_keywords :: "string list" where
  "feature_lighting_keywords = [''light'', ''bright'', ''dark'', ''window'']"

definition feature_space_keywords :: "string list" where
  "feature_space_keywords = [''space'', ''room'', ''area'', ''open'']"

definition feature_energy_keywords :: "string list" where
  "feature_energy_keywords = [''energy'', ''efficient'', ''eco'', ''green'']"

definition feature_smart_keywords :: "string list" where
  "feature_smart_keywords = [''smart'', ''tech'', ''automation'', ''device'']"

definition validate_priority_feature :: "string \<Rightarrow> string" where
  "validate_priority_feature v =
     (if any_in feature_storage_keywords v then ''storage''
      else if any_in feature_lighting_keywords v then ''lighting''
      else if any_in feature_space_keywords v then ''space''
      else if any_in feature_energy_keywords v then ''energy efficiency''
      else if any_in feature_smart_keywords v then ''smart features''
      else ''space'')"

text \<open>
  The method first replaces the value by \<^verbatim>\<open>value.strip().lower()\<close> and then branches on the
  checkpoint name; a name that is none of the six returns the stripped, lowered value.
\<close>

definition validate_checkpoint_value :: "string \<Rightarrow> string \<Rightarrow> string" where
  "validate_checkpoint_value checkpoint raw =
     (let v = lower (strip raw) in
      if checkpoint = ''room'' then validate_room v
      else if checkpoint = ''renovation_purpose'' then validate_renovation_purpose v
      else if checkpoint = ''budget_range'' then validate_budget_range v
      else if checkpoint = ''timeline'' then validate_timeline v
      else if checkpoint = ''style_preference'' then validate_style_preference v
      else if checkpoint = ''priority_feature'' then validate_priority_feature v
      else v)"

text \<open>
  The specification's reading of the four constrained normalizers, to compare the code
  with: the categories are tried in a fixed order, the first category one of whose keywords
  occurs in the value is the result, and a fixed default is the result when none does.
\<close>

definition first_matching_category ::
  "(string list \<times> string) list \<Rightarrow> string \<Rightarrow> string \<Rightarrow> string" where
  "first_matching_category groups dflt v =
     (case find (\<lambda>(kws, category). any_in kws v) groups of
        Some (kws, category) \<Rightarrow> category
      | None \<Rightarrow> dflt)"

definition budget_categories :: "(string list \<times> string) list" where
  "budget_categories = [(budget_low_keywords, ''low''), (budget_medium_keywords, ''medium''),
     (budget_high_keywords, ''high'')]"

definition timeline_categories :: "(string list \<times> string) list" where
  "timeline_categories =
     [(timeline_weeks_keywords, ''weeks''), (timeline_months_keywords, ''months'')]"

definition style_categories :: "(string list \<times> string) list" where
  "style_categories = [(style_modern_keywords, ''modern''),
     (style_traditional_keywords, ''traditional''), (style_rustic_keywords, ''rustic''),
     (style_minimalist_keywords, ''minimalist''),
     (style_contemporary_keywords, ''contemporary'')]"

definition feature_categories :: "(string list \<times> string) list" where
  "feature_categories = [(feature_storage_keywords, ''storage''),
     (feature_lighting_keywords, ''lighting''), (feature_space_keywords, ''space''),
     (feature_energy_keywords, ''energy efficiency''),
     (feature_smart_keywords, ''smart features'')]"

text \<open>The canonical vocabulary of a constrained checkpoint (spec, data model).\<close>

definition canonical_values :: "string \<Rightarrow> string list" where
  "canonical_values checkpoint =
     (if checkpoint = ''budget_range'' then [''low'', ''medium'', ''high'']
      else if checkpoint = ''timeline'' then [''weeks'', ''months'']
      else if checkpoint = ''style_preference'' then
        [''modern'', ''traditional'', ''rustic'', ''minimalist'', ''contemporary'']
      else if checkpoint = ''priority_feature'' then
        [''storage'', ''lighting'', ''space'', ''energy efficiency'', ''smart features'']
      else [])"

section \<open>The journey table (schemas.py, crud.py)\<close>

text \<open>
  A \<^verbatim>\<open>datetime\<close> is a point on a clock counted in \<^typ>\<open>nat\<close>; every function that reads
  \<^verbatim>\<open>datetime.datetime.utcnow()\<close> takes the instant as its first argument \<open>now\<close>.
  The column \<^verbatim>\<open>id\<close> is the field \<open>id'\<close>. Nullable columns are options.
\<close>

type_synonym time = nat

record RenovationJourney =
  id' :: int
  user_id :: int
  current_milestone :: int
  status :: string
  room :: "string option"
  renovation_purpose :: "string option"
  milestone1_completed :: bool
  milestone1_completed_at :: "time option"
  budget_range :: "string option"
  timeline :: "string option"
  milestone2_completed :: bool
  milestone2_completed_at :: "time option"
  style_preference :: "string option"
  priority_feature :: "string option"
  milestone3_completed :: bool
  milestone3_completed_at :: "time option"
  created_at :: time
  updated_at :: time

text \<open>Python truthiness of a nullable string: \<^verbatim>\<open>None\<close> and \<^verbatim>\<open>""\<close> are falsy.\<close>

fun truthy :: "string option \<Rightarrow> bool" where
  "truthy None = False"
| "truthy (Some s) = (s \<noteq> [])"

text \<open>\<^verbatim>\<open>getattr(journey, field)\<close> for the six checkpoint names.\<close>

definition checkpoint_field :: "string \<Rightarrow> RenovationJourney \<Rightarrow> string option" where
  "checkpoint_field field j =
     (if field = ''room'' then room j
      else if field = ''renovation_purpose'' then renovation_purpose j
      else if field = ''budget_range'' then budget_range j
      else if field = ''timeline'' then timeline j
      else if field = ''style_preference'' then style_preference j
      else if field = ''priority_feature'' then priority_feature j
      else None)"

text \<open>The values that the update dictionaries of the source carry.\<close>

datatype pyval = PyNone | PyStr string | PyBool bool | PyInt int | PyTime time

text \<open>
  Assigning a dictionary value to a column. Every call site of the source passes a value of
  the column's type (or \<^verbatim>\<open>None\<close> to a nullable column); any other value leaves the column
  as it is.
\<close>

fun set_str :: "pyval \<Rightarrow> string option \<Rightarrow> string option" where
  "set_str (PyStr s) old = Some s"
| "set_str PyNone old = None"
| "set_str v old = old"

fun set_time :: "pyval \<Rightarrow> time option \<Rightarrow> time option" where
  "set_time (PyTime t) old = Some t"
| "set_time PyNone old = None"
| "set_time v old = old"

fun set_bool :: "pyval \<Rightarrow> bool \<Rightarrow> bool" where
  "set_bool (PyBool b) old = b"
| "set_bool v old = old"

fun set_int :: "pyval \<Rightarrow> int \<Rightarrow> int" where
  "set_int (PyInt n) old = n"
| "set_int v old = old"

fun set_status :: "pyval \<Rightarrow> string \<Rightarrow> string" where
  "set_status (PyStr s) old = s"
| "set_status v old = old"

text \<open>
  \<^verbatim>\<open>if hasattr(db_journey, key): setattr(db_journey, key, value)\<close>, for the columns that the
  source's update dictionaries name; any other key leaves the row as it is.
\<close>

definition setattr :: "string \<Rightarrow> pyval \<Rightarrow> RenovationJourney \<Rightarrow> RenovationJourney" where
  "setattr key v j =
     (if key = ''room'' then j\<lparr>room := set_str v (room j)\<rparr>
      else if key = ''renovation_purpose'' then
        j\<lparr>renovation_purpose := set_str v (renovation_purpose j)\<rparr>
      else if key = ''budget_range'' then j\<lparr>budget_range := set_str v (budget_range j)\<rparr>
      else if key = ''timeline'' then j\<lparr>timeline := set_str v (timeline j)\<rparr>
      else if key = ''style_preference'' then
        j\<lparr>style_preference := set_str v (style_preference j)\<rparr>
      else if key = ''priority_feature'' then
        j\<lparr>priority_feature := set_str v (priority_feature j)\<rparr>
      else if key = ''milestone1_completed'' then
        j\<lparr>milestone1_completed := set_bool v (milestone1_completed j)\<rparr>
      else if key = ''milestone2_completed'' then
        j\<lparr>milestone2_completed := set_bool v (milestone2_completed j)\<rparr>
      else if key = ''milestone3_completed'' then
        j\<lparr>milestone3_completed := set_bool v (milestone3_completed j)\<rparr>
      else if key = ''milestone1_completed_at'' then
        j\<lparr>milestone1_completed_at := set_time v (milestone1_completed_at j)\<rparr>
      else if key = ''milestone2_completed_at'' then
        j\<lparr>milestone2_completed_at := set_time v (milestone2_completed_at j)\<rparr>
      else if key = ''milestone3_completed_at'' then
        j\<lparr>milestone3_completed_at := set_time v (milestone3_completed_at j)\<rparr>
      else if key = ''current_milestone'' then
        j\<lparr>current_milestone := set_int v (current_milestone j)\<rparr>
      else if key = ''status'' then j\<lparr>status := set_status v (status j)\<rparr>
      else j)"

text \<open>The loop \<^verbatim>\<open>for key, value in update_data.items()\<close>, in insertion order.\<close>

fun apply_update_data :: "(string \<times> pyval) list \<Rightarrow> RenovationJourney \<Rightarrow> RenovationJourney" where
  "apply_update_data [] j = j"
| "apply_update_data ((key, v) # rest) j = apply_update_data rest (setattr key v j)"

text \<open>
  The table \<^verbatim>\<open>renovation_journeys\<close> is the list of its rows. One session is shared by all
  the code modelled here, so a write is visible to every later read and \<^verbatim>\<open>db.commit()\<close>,
  \<^verbatim>\<open>db.refresh()\<close> change nothing in the table.
\<close>

type_synonym db = "RenovationJourney list"

definition get_journey :: "db \<Rightarrow> int \<Rightarrow> RenovationJourney option" where
  "get_journey db journey_id = find (\<lambda>r. id' r = journey_id) db"

text \<open>Writing a changed row back: the first row with its id is replaced.\<close>

fun store_row :: "RenovationJourney \<Rightarrow> db \<Rightarrow> db" where
  "store_row j [] = []"
| "store_row j (r # rs) = (if id' r = id' j then j # rs else r # store_row j rs)"

definition create_journey :: "time \<Rightarrow> db \<Rightarrow> int \<Rightarrow> RenovationJourney \<times> db" where
  "create_journey now db uid =
     (let db_journey = \<lparr>id' = fold max (map id' db) 0 + 1, user_id = uid,
            current_milestone = 1, status = ''in_progress'',
            room = None, renovation_purpose = None,
            milestone1_completed = False, milestone1_completed_at = None,
            budget_range = None, timeline = None,
            milestone2_completed = False, milestone2_completed_at = None,
            style_preference = None, priority_feature = None,
            milestone3_completed = False, milestone3_completed_at = None,
            created_at = now, updated_at = now\<rparr>
      in (db_journey, db @ [db_journey]))"

definition crud_update_journey ::
  "time \<Rightarrow> db \<Rightarrow> int \<Rightarrow> (string \<times> pyval) list \<Rightarrow> RenovationJourney option \<times> db" where
  "crud_update_journey now db journey_id journey_data =
     (case get_journey db journey_id of
        None \<Rightarrow> (None, db)
      | Some db_journey \<Rightarrow>
          (let j = (apply_update_data journey_data db_journey)\<lparr>updated_at := now\<rparr>
           in (Some j, store_row j db)))"

definition update_checkpoint ::
  "time \<Rightarrow> db \<Rightarrow> int \<Rightarrow> string \<Rightarrow> string \<Rightarrow> RenovationJourney option \<times> db" where
  "update_checkpoint now db journey_id checkpoint_name v =
     (if checkpoint_name \<notin> set [''room'', ''renovation_purpose'', ''budget_range'',
                                  ''timeline'', ''style_preference'', ''priority_feature'']
      then (None, db)
      else crud_update_journey now db journey_id [(checkpoint_name, PyStr v)])"

section \<open>The Completion Evaluator\<close>

text \<open>
  The current-milestone check is written three times in the source with the same
  \<^verbatim>\<open>if\<close>/\<^verbatim>\<open>elif\<close> chain (\<^verbatim>\<open>crud.check_milestone_completion\<close>,
  \<^verbatim>\<open>Sentinel._check_milestone_completion\<close>, \<^verbatim>\<open>JourneyHandler._check_milestone_completion\<close>);
  \<open>completion_update_data\<close> is that chain, building \<^verbatim>\<open>update_data\<close>.
\<close>

definition completion_update_data :: "time \<Rightarrow> RenovationJourney \<Rightarrow> (string \<times> pyval) list" where
  "completion_update_data now j =
     (if current_milestone j = 1 \<and> \<not> milestone1_completed j then
        (if truthy (room j) \<and> truthy (renovation_purpose j)
         then [(''milestone1_completed'', PyBool True), (''milestone1_completed_at'', PyTime now)]
         else [])
      else if current_milestone j = 2 \<and> \<not> milestone2_completed j then
        (if truthy (budget_range j) \<and> truthy (timeline j)
         then [(''milestone2_completed'', PyBool True), (''milestone2_completed_at'', PyTime now)]
         else [])
      else if current_milestone j = 3 \<and> \<not> milestone3_completed j then
        (if truthy (style_preference j) \<and> truthy (priority_feature j)
         then [(''milestone3_completed'', PyBool True), (''milestone3_completed_at'', PyTime now),
               (''status'', PyStr ''completed'')]
         else [])
      else [])"

text \<open>\<^verbatim>\<open>crud.check_milestone_completion(db, journey_id)\<close>.\<close>

definition check_milestone_completion ::
  "time \<Rightarrow> db \<Rightarrow> int \<Rightarrow> RenovationJourney option \<times> db" where
  "check_milestone_completion now db journey_id =
     (case get_journey db journey_id of
        None \<Rightarrow> (None, db)
      | Some db_journey \<Rightarrow>
          (let update_data = completion_update_data now db_journey
           in if update_data \<noteq> [] then crud_update_journey now db journey_id update_data
              else (Some db_journey, db)))"

text \<open>
  \<^verbatim>\<open>Sentinel._check_milestone_completion(journey)\<close> and
  \<^verbatim>\<open>JourneyHandler._check_milestone_completion(journey)\<close>: they take the journey object,
  return nothing and leave their effect in the table.
\<close>

definition Sentinel_check_milestone_completion :: "time \<Rightarrow> db \<Rightarrow> RenovationJourney \<Rightarrow> db" where
  "Sentinel_check_milestone_completion now db journey =
     (let update_data = completion_update_data now journey
      in if update_data \<noteq> [] then snd (crud_update_journey now db (id' journey) update_data)
         else db)"

definition JourneyHandler_check_milestone_completion ::
  "time \<Rightarrow> db \<Rightarrow> RenovationJourney \<Rightarrow> db" where
  "JourneyHandler_check_milestone_completion now db journey =
     (let update_data = completion_update_data now journey
      in if update_data \<noteq> [] then snd (crud_update_journey now db (id' journey) update_data)
         else db)"

text \<open>
  \<^verbatim>\<open>update_milestone(updated_journey, db)\<close> of sentinel_functions.py. Its three blocks run
  one after the other; \<open>ud1\<close>, \<open>ud2\<close>, \<open>ud3\<close>, \<open>ud4\<close> are \<^verbatim>\<open>update_data\<close> and \<open>h1\<close>,
  \<open>h2\<close>, \<open>h3\<close> are \<^verbatim>\<open>highest_completed_milestone\<close> after each block and after the
  milestone test. \<open>milestone_update_data\<close> is the function up to the final
  \<^verbatim>\<open>if update_data:\<close>.
\<close>

definition milestone_update_data :: "time \<Rightarrow> RenovationJourney \<Rightarrow> (string \<times> pyval) list" where
  "milestone_update_data now updated_journey =
     (let milestone1_complete =
            (truthy (room updated_journey) \<and> truthy (renovation_purpose updated_journey));
          ud1 = (if milestone1_complete \<and> \<not> milestone1_completed updated_journey
                 then [(''milestone1_completed'', PyBool True),
                       (''milestone1_completed_at'', PyTime now)]
                 else []);
          h1 = (if milestone1_complete then 1 else (0::int));
          milestone2_complete =
            (truthy (budget_range updated_journey) \<and> truthy (timeline updated_journey));
          ud2 = ud1 @ (if milestone2_complete \<and> \<not> milestone2_completed updated_journey
                       then [(''milestone2_completed'', PyBool True),
                             (''milestone2_completed_at'', PyTime now)]
                       else []);
          h2 = (if milestone2_complete then 2 else h1);
          milestone3_complete =
            (truthy (style_preference updated_journey) \<and>
             truthy (priority_feature updated_journey));
          ud3 = ud2 @ (if milestone3_complete \<and> \<not> milestone3_completed updated_journey
                       then [(''milestone3_completed'', PyBool True),
                             (''milestone3_completed_at'', PyTime now),
                             (''status'', PyStr ''completed'')]
                       else []);
          h3 = (if milestone3_complete then 3 else h2);
          ud4 = ud3 @ (if h3 < 3 \<and> current_milestone updated_journey < h3 + 1
                       then [(''current_milestone'', PyInt (h3 + 1))]
                       else [])
      in ud4)"

definition update_milestone ::
  "time \<Rightarrow> db \<Rightarrow> RenovationJourney \<Rightarrow> RenovationJourney option \<times> db" where
  "update_milestone now db updated_journey =
     (let update_data = milestone_update_data now updated_journey
      in if update_data \<noteq> [] then crud_update_journey now db (id' updated_journey) update_data
         else (Some updated_journey, db))"

section \<open>The Sentinel's tool handler (sentinel_functions.py, \<^verbatim>\<open>update_journey\<close>)\<close>

text \<open>Exceptions of the classes that \<^verbatim>\<open>except Exception\<close> catches.\<close>

datatype py_error = AttributeError | DatabaseError | APIError

text \<open>
  The dictionary that the handler returns: one constructor for each \<^verbatim>\<open>return\<close> of the
  source, in its order; \<open>HandlerError\<close> is the outer \<^verbatim>\<open>except Exception\<close>.
\<close>

datatype tool_result =
    MissingJourneyId
  | MissingNameOrValue
  | InvalidCheckpointName string
  | JourneyNotFound int
  | HandlerError py_error
  | Success string string int

definition valid_checkpoints :: "string list" where
  "valid_checkpoints = [''room'', ''renovation_purpose'', ''budget_range'', ''timeline'',
                        ''style_preference'', ''priority_feature'']"

text \<open>
  The arguments are those of the model's tool call and may be \<^verbatim>\<open>None\<close>. \<^verbatim>\<open>not journey_id\<close>
  holds for \<^verbatim>\<open>None\<close> and for 0. \<^verbatim>\<open>update_milestone\<close> on the \<^verbatim>\<open>None\<close> that
  \<^verbatim>\<open>crud.update_journey\<close> returns for a missing row raises, and the outer handler turns that
  into an error result.
\<close>

definition update_journey ::
  "time \<Rightarrow> db \<Rightarrow> int option \<Rightarrow> string option \<Rightarrow> string option \<Rightarrow> tool_result \<times> db" where
  "update_journey now db journey_id checkpoint_name val =
     (if journey_id = None \<or> journey_id = Some 0 then (MissingJourneyId, db)
      else if \<not> truthy checkpoint_name \<or> \<not> truthy val then (MissingNameOrValue, db)
      else
        (case (journey_id, checkpoint_name, val) of
           (Some jid, Some cn, Some v) \<Rightarrow>
             if cn \<notin> set valid_checkpoints then (InvalidCheckpointName cn, db)
             else
               (case get_journey db jid of
                  None \<Rightarrow> (JourneyNotFound jid, db)
                | Some journey \<Rightarrow>
                    (case crud_update_journey now db jid [(cn, PyStr v)] of
                       (None, db1) \<Rightarrow> (HandlerError AttributeError, db1)
                     | (Some updated_journey, db1) \<Rightarrow>
                         (Success cn v jid, snd (update_milestone now db1 updated_journey))))
         | _ \<Rightarrow> (MissingNameOrValue, db)))"

section \<open>The Sentinel (sentinel.py)\<close>

text \<open>\<^verbatim>\<open>Sentinel._get_next_checkpoint_to_extract\<close>: the pair (question, checkpoint name).\<close>

definition get_next_checkpoint_to_extract ::
  "RenovationJourney \<Rightarrow> string option \<times> string option" where
  "get_next_checkpoint_to_extract journey =
     (if current_milestone journey = 1 then
        (if \<not> truthy (room journey) then
           (Some ''Which room do you want to renovate?'', Some ''room'')
         else if \<not> truthy (renovation_purpose journey) then
           (Some ''What is the main purpose of your renovation?'', Some ''renovation_purpose'')
         else (None, None))
      else if current_milestone journey = 2 then
        (if \<not> truthy (budget_range journey) then
           (Some ''What kind of budget do you have in mind for this renovation?'',
            Some ''budget_range'')
         else if \<not> truthy (timeline journey) then
           (Some ''How quickly are you hoping to complete this renovation?'', Some ''timeline'')
         else (None, None))
      else if current_milestone journey = 3 then
        (if \<not> truthy (style_preference journey) then
           (Some ''What style are you going for in this renovation?'', Some ''style_preference'')
         else if \<not> truthy (priority_feature journey) then
           (Some ''What's the most important feature you want in your renovation?'',
            Some ''priority_feature'')
         else (None, None))
      else (None, None))"


text \<open>\<^verbatim>\<open>Sentinel._get_valid_checkpoints_for_milestone\<close>.\<close>

definition get_valid_checkpoints_for_milestone :: "int \<Rightarrow> string list" where
  "get_valid_checkpoints_for_milestone milestone =
     (if milestone = 1 then [''room'', ''renovation_purpose'']
      else if milestone = 2 then [''budget_range'', ''timeline'']
      else if milestone = 3 then [''style_preference'', ''priority_feature'']
      else [])"

text \<open>\<^verbatim>\<open>Sentinel._journey_was_updated\<close>: the eleven compared attributes.\<close>

definition journey_was_updated :: "RenovationJourney \<Rightarrow> RenovationJourney \<Rightarrow> bool" where
  "journey_was_updated original updated =
     (room original \<noteq> room updated \<or>
      renovation_purpose original \<noteq> renovation_purpose updated \<or>
      budget_range original \<noteq> budget_range updated \<or>
      timeline original \<noteq> timeline updated \<or>
      style_preference original \<noteq> style_preference updated \<or>
      priority_feature original \<noteq> priority_feature updated \<or>
      milestone1_completed original \<noteq> milestone1_completed updated \<or>
      milestone2_completed original \<noteq> milestone2_completed updated \<or>
      milestone3_completed original \<noteq> milestone3_completed updated \<or>
      current_milestone original \<noteq> current_milestone updated \<or>
      status original \<noteq> status updated)"

text \<open>
  A message row (its column \<^verbatim>\<open>current_milestone\<close> is the field \<open>message_milestone\<close>),
  and what \<^verbatim>\<open>Sentinel._build_system_message\<close> interpolates into the system prompt. The wording of the prompt is not modelled: the model's reply is a parameter of
  \<open>analyze\<close> that may depend on every interpolated value.
\<close>

record Message =
  speaker :: string
  content :: string
  message_milestone :: int
  timestamp :: time













section \<open>The fallback keyword extractor (handler.py)\<close>

text \<open>The keyword dictionaries of \<^verbatim>\<open>_analyze_message_for_checkpoints\<close>, in insertion order.\<close>

definition room_keywords :: "(string \<times> string) list" where
  "room_keywords = [(''kitchen'', ''kitchen''), (''bathroom'', ''bathroom''),
     (''bedroom'', ''bedroom''), (''living room'', ''living room''), (''basement'', ''basement'')]"

definition purpose_keywords :: "(string \<times> string) list" where
  "purpose_keywords = [(''aesthetic'', ''aesthetic''), (''functional'', ''functional''),
     (''repair'', ''repair''), (''expand'', ''expand space''), (''modern'', ''modernize'')]"

definition budget_keywords :: "(string \<times> string) list" where
  "budget_keywords = [(''cheap'', ''low''), (''affordable'', ''low''), (''reasonable'', ''medium''),
     (''mid'', ''medium''), (''expensive'', ''high''), (''luxury'', ''high'')]"

definition timeline_keywords :: "(string \<times> string) list" where
  "timeline_keywords = [(''quick'', ''weeks''), (''fast'', ''weeks''), (''soon'', ''weeks''),
     (''month'', ''months''), (''long'', ''months'')]"

definition style_keywords :: "(string \<times> string) list" where
  "style_keywords = [(''modern'', ''modern''), (''traditional'', ''traditional''),
     (''rustic'', ''rustic''), (''minimalist'', ''minimalist''),
     (''contemporary'', ''contemporary'')]"

definition feature_keywords :: "(string \<times> string) list" where
  "feature_keywords = [(''storage'', ''increased storage''), (''light'', ''natural lighting''),
     (''space'', ''open space''), (''energy'', ''energy efficiency''),
     (''smart'', ''smart home features'')]"

text \<open>
  One keyword loop:
  \<^verbatim>\<open>for keyword, value in kws.items(): if keyword in message_lower and not field: ...; break\<close>.
  \<open>unfilled\<close> is \<^verbatim>\<open>not journey.<field>\<close>; the result is the value to write, if any.
\<close>

fun scan_keywords :: "(string \<times> string) list \<Rightarrow> string \<Rightarrow> bool \<Rightarrow> string option" where
  "scan_keywords [] message_lower unfilled = None"
| "scan_keywords ((keyword, v) # rest) message_lower unfilled =
     (if py_in keyword message_lower \<and> unfilled then Some v
      else scan_keywords rest message_lower unfilled)"

definition extract_field ::
  "string \<Rightarrow> (string \<times> string) list \<Rightarrow> string \<Rightarrow> string option \<Rightarrow> (string \<times> pyval) list" where
  "extract_field key kws message_lower field =
     (case scan_keywords kws message_lower (\<not> truthy field) of
        Some v \<Rightarrow> [(key, PyStr v)]
      | None \<Rightarrow> [])"

definition fallback_update_data :: "RenovationJourney \<Rightarrow> string \<Rightarrow> (string \<times> pyval) list" where
  "fallback_update_data journey message =
     (let message_lower = lower message in
      if current_milestone journey = 1 then
        extract_field ''room'' room_keywords message_lower (room journey) @
        extract_field ''renovation_purpose'' purpose_keywords message_lower
          (renovation_purpose journey)
      else if current_milestone journey = 2 then
        extract_field ''budget_range'' budget_keywords message_lower (budget_range journey) @
        extract_field ''timeline'' timeline_keywords message_lower (timeline journey)
      else if current_milestone journey = 3 then
        extract_field ''style_preference'' style_keywords message_lower
          (style_preference journey) @
        extract_field ''priority_feature'' feature_keywords message_lower
          (priority_feature journey)
      else [])"

text \<open>
  \<^verbatim>\<open>JourneyHandler._analyze_message_for_checkpoints\<close>. When the row has gone, the re-fetch
  gives \<^verbatim>\<open>None\<close> and \<^verbatim>\<open>_check_milestone_completion(None)\<close> raises; the last re-fetch is
  returned as it is.
\<close>

definition analyze_message_for_checkpoints ::
  "time \<Rightarrow> db \<Rightarrow> RenovationJourney \<Rightarrow> string
     \<Rightarrow> (py_error + RenovationJourney option) \<times> db" where
  "analyze_message_for_checkpoints now db journey message =
     (let update_data = fallback_update_data journey message in
      if update_data \<noteq> [] then
        (let db1 = snd (crud_update_journey now db (id' journey) update_data) in
         case get_journey db1 (id' journey) of
           None \<Rightarrow> (Inl AttributeError, db1)
         | Some updated_journey \<Rightarrow>
             (let db2 = JourneyHandler_check_milestone_completion now db1 updated_journey
              in (Inr (get_journey db2 (id' journey)), db2)))
      else (Inr (Some journey), db))"

text \<open>\<^verbatim>\<open>JourneyHandler._get_completed_checkpoints\<close>.\<close>

definition get_completed_checkpoints :: "RenovationJourney \<Rightarrow> string list" where
  "get_completed_checkpoints journey =
     (if current_milestone journey = 1 then
        (if truthy (room journey) then [''room''] else []) @
        (if truthy (renovation_purpose journey) then [''renovation_purpose''] else [])
      else if current_milestone journey = 2 then
        (if truthy (budget_range journey) then [''budget_range''] else []) @
        (if truthy (timeline journey) then [''timeline''] else [])
      else if current_milestone journey = 3 then
        (if truthy (style_preference journey) then [''style_preference''] else []) @
        (if truthy (priority_feature journey) then [''priority_feature''] else [])
      else [])"

section \<open>The Prompt Selector (prompts.py)\<close>

text \<open>
  The thirteen module-level templates and the inline default. A prompt is a template with
  the keyword arguments of its \<^verbatim>\<open>.format\<close> call: the journey values by name, the context
  and, where the call passes it, the completed-checkpoint list. The rendering of the text
  is not modelled.
\<close>

datatype template =
    JOURNEY_COMPLETE
  | MILESTONE_1_COMPLETE | MILESTONE_1_ROOM_KNOWN | MILESTONE_1_PURPOSE_KNOWN | MILESTONE_1_INTRO
  | MILESTONE_2_COMPLETE | MILESTONE_2_BUDGET_KNOWN | MILESTONE_2_TIMELINE_KNOWN | MILESTONE_2_INTRO
  | MILESTONE_3_COMPLETE | MILESTONE_3_STYLE_KNOWN | MILESTONE_3_FEATURE_KNOWN | MILESTONE_3_INTRO
  | DEFAULT_PROMPT

datatype 'c prompt = Format template "(string \<times> string option) list" 'c "string list option"

fun template_of :: "'c prompt \<Rightarrow> template" where
  "template_of (Format t kwargs ctx cps) = t"

definition get_prompt_for_journey :: "RenovationJourney \<Rightarrow> 'c \<Rightarrow> string list \<Rightarrow> 'c prompt" where
  "get_prompt_for_journey journey ctx completed_checkpoints =
     (if status journey = ''completed'' then
        Format JOURNEY_COMPLETE
          [(''room'', room journey), (''renovation_purpose'', renovation_purpose journey),
           (''budget_range'', budget_range journey), (''timeline'', timeline journey),
           (''style_preference'', style_preference journey),
           (''priority_feature'', priority_feature journey)] ctx None
      else if current_milestone journey = 1 then
        (if milestone1_completed journey then
           Format MILESTONE_1_COMPLETE
             [(''room'', room journey), (''renovation_purpose'', renovation_purpose journey)]
             ctx (Some completed_checkpoints)
         else if ''room'' \<in> set completed_checkpoints \<and>
                 ''renovation_purpose'' \<notin> set completed_checkpoints then
           Format MILESTONE_1_ROOM_KNOWN [(''room'', room journey)] ctx
             (Some completed_checkpoints)
         else if ''renovation_purpose'' \<in> set completed_checkpoints \<and>
                 ''room'' \<notin> set completed_checkpoints then
           Format MILESTONE_1_PURPOSE_KNOWN
             [(''renovation_purpose'', renovation_purpose journey)] ctx
             (Some completed_checkpoints)
         else Format MILESTONE_1_INTRO [] ctx (Some completed_checkpoints))
      else if current_milestone journey = 2 then
        (if milestone2_completed journey then
           Format MILESTONE_2_COMPLETE
             [(''room'', room journey), (''renovation_purpose'', renovation_purpose journey),
              (''budget_range'', budget_range journey), (''timeline'', timeline journey)]
             ctx (Some completed_checkpoints)
         else if ''budget_range'' \<in> set completed_checkpoints \<and>
                 ''timeline'' \<notin> set completed_checkpoints then
           Format MILESTONE_2_BUDGET_KNOWN
             [(''room'', room journey), (''budget_range'', budget_range journey)] ctx
             (Some completed_checkpoints)
         else if ''timeline'' \<in> set completed_checkpoints \<and>
                 ''budget_range'' \<notin> set completed_checkpoints then
           Format MILESTONE_2_TIMELINE_KNOWN
             [(''room'', room journey), (''timeline'', timeline journey)] ctx
             (Some completed_checkpoints)
         else
           Format MILESTONE_2_INTRO
             [(''room'', room journey), (''renovation_purpose'', renovation_purpose journey)]
             ctx (Some completed_checkpoints))
      else if current_milestone journey = 3 then
        (if milestone3_completed journey then
           Format MILESTONE_3_COMPLETE
             [(''room'', room journey), (''renovation_purpose'', renovation_purpose journey),
              (''budget_range'', budget_range journey), (''timeline'', timeline journey),
              (''style_preference'', style_preference journey),
              (''priority_feature'', priority_feature journey)]
             ctx (Some completed_checkpoints)
         else if ''style_preference'' \<in> set completed_checkpoints \<and>
                 ''priority_feature'' \<notin> set completed_checkpoints then
           Format MILESTONE_3_STYLE_KNOWN
             [(''room'', room journey), (''style_preference'', style_preference journey)] ctx
             (Some completed_checkpoints)
         else if ''priority_feature'' \<in> set completed_checkpoints \<and>
                 ''style_preference'' \<notin> set completed_checkpoints then
           Format MILESTONE_3_FEATURE_KNOWN
             [(''room'', room journey), (''priority_feature'', priority_feature journey)] ctx
             (Some completed_checkpoints)
         else
           Format MILESTONE_3_INTRO
             [(''room'', room journey), (''renovation_purpose'', renovation_purpose journey),
              (''budget_range'', budget_range journey), (''timeline'', timeline journey)]
             ctx (Some completed_checkpoints))
      else Format DEFAULT_PROMPT [] ctx None)"

section \<open>Histories of a journey table\<close>

text \<open>
  The operations that write checkpoint fields or run the Completion Evaluator, as events
  on the table: journey creation, the single-field write \<^verbatim>\<open>crud.update_checkpoint\<close>, the
  current-milestone evaluator \<^verbatim>\<open>crud.check_milestone_completion\<close>, the all-milestones
  evaluator \<^verbatim>\<open>update_milestone\<close> on the fetched row, the Sentinel's tool handler and the
  fallback extractor on the fetched row. Each event carries the clock reading of its call.
\<close>

datatype journey_event =
    Create int
  | UpdateCheckpoint int string string
  | CheckCompletion int
  | UpdateMilestone int
  | SentinelUpdate "int option" "string option" "string option"
  | Fallback int string

fun step :: "time \<Rightarrow> journey_event \<Rightarrow> db \<Rightarrow> db" where
  "step now (Create uid) db = snd (create_journey now db uid)"
| "step now (UpdateCheckpoint journey_id checkpoint_name v) db =
     snd (update_checkpoint now db journey_id checkpoint_name v)"
| "step now (CheckCompletion journey_id) db = snd (check_milestone_completion now db journey_id)"
| "step now (UpdateMilestone journey_id) db =
     (case get_journey db journey_id of
        None \<Rightarrow> db
      | Some journey \<Rightarrow> snd (update_milestone now db journey))"
| "step now (SentinelUpdate journey_id checkpoint_name v) db =
     snd (update_journey now db journey_id checkpoint_name v)"
| "step now (Fallback journey_id message) db =
     (case get_journey db journey_id of
        None \<Rightarrow> db
      | Some journey \<Rightarrow> snd (analyze_message_for_checkpoints now db journey message))"

fun run :: "(time \<times> journey_event) list \<Rightarrow> db \<Rightarrow> db" where
  "run [] db = db"
| "run ((now, ev) # evs) db = run evs (step now ev db)"

text \<open>The completion-flag invariant of one row.\<close>

definition flags_imply_fields :: "RenovationJourney \<Rightarrow> bool" where
  "flags_imply_fields j =
     ((milestone1_completed j \<longrightarrow> room j \<noteq> None \<and> renovation_purpose j \<noteq> None) \<and>
      (milestone2_completed j \<longrightarrow> budget_range j \<noteq> None \<and> timeline j \<noteq> None) \<and>
      (milestone3_completed j \<longrightarrow> style_preference j \<noteq> None \<and> priority_feature j \<noteq> None))"

section \<open>Auxiliary definitions for the proofs\<close>

text \<open>
  The row that \<^verbatim>\<open>crud.update_journey\<close> writes back for a found row, and the pieces of
  \<open>milestone_update_data\<close>: the completion test of each milestone, the final value of
  \<^verbatim>\<open>highest_completed_milestone\<close>, the flag entries and the milestone entry.
\<close>

definition row_after ::
  "time \<Rightarrow> (string \<times> pyval) list \<Rightarrow> RenovationJourney \<Rightarrow> RenovationJourney" where
  "row_after now data j = (apply_update_data data j)\<lparr>updated_at := now\<rparr>"

definition m1_complete :: "RenovationJourney \<Rightarrow> bool" where
  "m1_complete j = (truthy (room j) \<and> truthy (renovation_purpose j))"

definition m2_complete :: "RenovationJourney \<Rightarrow> bool" where
  "m2_complete j = (truthy (budget_range j) \<and> truthy (timeline j))"

definition m3_complete :: "RenovationJourney \<Rightarrow> bool" where
  "m3_complete j = (truthy (style_preference j) \<and> truthy (priority_feature j))"

definition highest_completed_milestone :: "RenovationJourney \<Rightarrow> int" where
  "highest_completed_milestone j =
     (if m3_complete j then 3 else if m2_complete j then 2 else if m1_complete j then 1 else 0)"

definition flag_updates :: "time \<Rightarrow> RenovationJourney \<Rightarrow> (string \<times> pyval) list" where
  "flag_updates now j =
     (if m1_complete j \<and> \<not> milestone1_completed j
      then [(''milestone1_completed'', PyBool True), (''milestone1_completed_at'', PyTime now)]
      else []) @
     (if m2_complete j \<and> \<not> milestone2_completed j
      then [(''milestone2_completed'', PyBool True), (''milestone2_completed_at'', PyTime now)]
      else []) @
     (if m3_complete j \<and> \<not> milestone3_completed j
      then [(''milestone3_completed'', PyBool True), (''milestone3_completed_at'', PyTime now),
            (''status'', PyStr ''completed'')]
      else [])"

definition milestone_advance :: "RenovationJourney \<Rightarrow> (string \<times> pyval) list" where
  "milestone_advance j =
     (if highest_completed_milestone j < 3 \<and>
         current_milestone j < highest_completed_milestone j + 1
      then [(''current_milestone'', PyInt (highest_completed_milestone j + 1))]
      else [])"

text \<open>Journeys for the concrete instances: a fresh journey with id 1 and variations of it.\<close>

definition new_journey :: RenovationJourney where
  "new_journey = fst (create_journey 0 [] 1)"

definition basics_filled :: RenovationJourney where
  "basics_filled = new_journey\<lparr>room := Some ''kitchen'', renovation_purpose := Some ''repair''\<rparr>"

definition basics_history :: "(time \<times> journey_event) list" where
  "basics_history = [(1, Create 1), (2, UpdateCheckpoint 1 ''room'' ''kitchen''),
     (3, UpdateCheckpoint 1 ''renovation_purpose'' ''repair''), (4, CheckCompletion 1),
     (5, UpdateMilestone 1)]"

definition sentinel_history :: "(time \<times> journey_event) list" where
  "sentinel_history = [(1, Create 1),
     (2, SentinelUpdate (Some 1) (Some ''room'') (Some ''kitchen'')),
     (3, SentinelUpdate (Some 1) (Some ''renovation_purpose'') (Some ''repair'')),
     (4, SentinelUpdate (Some 1) (Some ''style_preference'') (Some ''modern''))]"

definition style_known_at_2 :: RenovationJourney where
  "style_known_at_2 = basics_filled\<lparr>current_milestone := 2, milestone1_completed := True,
     milestone1_completed_at := Some 3, style_preference := Some ''modern'',
     priority_feature := Some ''storage'', created_at := 1, updated_at := 5\<rparr>"

definition room_known :: RenovationJourney where
  "room_known = new_journey\<lparr>room := Some ''kitchen''\<rparr>"

text \<open>The checks of the tool handler, collected: the call has a non-zero journey id, a
  non-empty checkpoint name among the six, a non-empty value, and the journey exists.\<close>

definition passes_checks :: "db \<Rightarrow> int option \<Rightarrow> string option \<Rightarrow> string option \<Rightarrow> bool" where
  "passes_checks db journey_id checkpoint_name val =
     (case (journey_id, checkpoint_name, val) of
        (Some jid, Some cn, Some v) \<Rightarrow>
          jid \<noteq> 0 \<and> cn \<noteq> [] \<and> v \<noteq> [] \<and> cn \<in> set valid_checkpoints \<and>
          get_journey db jid \<noteq> None
      | _ \<Rightarrow> False)"

fun is_error :: "tool_result \<Rightarrow> bool" where
  "is_error (Success cn v jid) = False"
| "is_error r = True"

definition basics_done :: RenovationJourney where
  "basics_done = basics_filled\<lparr>current_milestone := 2, milestone1_completed := True,
     milestone1_completed_at := Some 3\<rparr>"

text \<open>The keyword dictionary that the fallback extractor scans for a checkpoint.\<close>

definition fallback_keywords :: "string \<Rightarrow> (string \<times> string) list" where
  "fallback_keywords checkpoint =
     (if checkpoint = ''room'' then room_keywords
      else if checkpoint = ''renovation_purpose'' then purpose_keywords
      else if checkpoint = ''budget_range'' then budget_keywords
      else if checkpoint = ''timeline'' then timeline_keywords
      else if checkpoint = ''style_preference'' then style_keywords
      else if checkpoint = ''priority_feature'' then feature_keywords
      else [])"

text \<open>What the fallback extractor leaves in a checkpoint field of the journey: an unfilled
  field of the current milestone takes the value of the first keyword of its dictionary
  that occurs in the lowered message, every other field keeps its value.\<close>

definition fallback_field :: "RenovationJourney \<Rightarrow> string \<Rightarrow> string \<Rightarrow> string option" where
  "fallback_field journey message c =
     (if c \<in> set (get_valid_checkpoints_for_milestone (current_milestone journey)) \<and>
         \<not> truthy (checkpoint_field c journey)
      then (case find (\<lambda>kv. py_in (fst kv) (lower message)) (fallback_keywords c) of
              Some kv \<Rightarrow> Some (snd kv)
            | None \<Rightarrow> checkpoint_field c journey)
      else checkpoint_field c journey)"




text \<open>Every journey of the first table is a journey of the second, at the same or a later
  milestone.\<close>

definition milestones_grow :: "db \<Rightarrow> db \<Rightarrow> bool" where
  "milestones_grow db db' =
     (\<forall>k j. get_journey db k = Some j \<longrightarrow>
        (\<exists>j'. get_journey db' k = Some j' \<and> current_milestone j \<le> current_milestone j'))"

section \<open>Properties of the table operations\<close>

lemma setattr_simps:
  "setattr ''room'' v j = j\<lparr>room := set_str v (room j)\<rparr>"
  "setattr ''renovation_purpose'' v j = j\<lparr>renovation_purpose := set_str v (renovation_purpose j)\<rparr>"
  "setattr ''budget_range'' v j = j\<lparr>budget_range := set_str v (budget_range j)\<rparr>"
  "setattr ''timeline'' v j = j\<lparr>timeline := set_str v (timeline j)\<rparr>"
  "setattr ''style_preference'' v j = j\<lparr>style_preference := set_str v (style_preference j)\<rparr>"
  "setattr ''priority_feature'' v j = j\<lparr>priority_feature := set_str v (priority_feature j)\<rparr>"
  "setattr ''milestone1_completed'' v j = j\<lparr>milestone1_completed := set_bool v (milestone1_completed j)\<rparr>"
  "setattr ''milestone2_completed'' v j = j\<lparr>milestone2_completed := set_bool v (milestone2_completed j)\<rparr>"
  "setattr ''milestone3_completed'' v j = j\<lparr>milestone3_completed := set_bool v (milestone3_completed j)\<rparr>"
  "setattr ''milestone1_completed_at'' v j = j\<lparr>milestone1_completed_at := set_time v (milestone1_completed_at j)\<rparr>"
  "setattr ''milestone2_completed_at'' v j = j\<lparr>milestone2_completed_at := set_time v (milestone2_completed_at j)\<rparr>"
  "setattr ''milestone3_completed_at'' v j = j\<lparr>milestone3_completed_at := set_time v (milestone3_completed_at j)\<rparr>"
  "setattr ''current_milestone'' v j = j\<lparr>current_milestone := set_int v (current_milestone j)\<rparr>"
  "setattr ''status'' v j = j\<lparr>status := set_status v (status j)\<rparr>"
  by (simp_all add: setattr_def)

lemma id_setattr [simp]: "id' (setattr key v j) = id' j"
  by (simp add: setattr_def)

lemma id_apply_update_data [simp]: "id' (apply_update_data data j) = id' j"
  by (induction data j rule: apply_update_data.induct) simp_all

lemma apply_update_data_append:
  "apply_update_data (xs @ ys) j = apply_update_data ys (apply_update_data xs j)"
  by (induction xs j rule: apply_update_data.induct) simp_all

lemma milestone_update_data_flat:
  "milestone_update_data now j = flag_updates now j @ milestone_advance j"
  unfolding milestone_update_data_def flag_updates_def milestone_advance_def
    highest_completed_milestone_def m1_complete_def m2_complete_def m3_complete_def Let_def
  by simp


lemma flag_updates_fields:
  "room (apply_update_data (flag_updates now j) j) = room j"
  "renovation_purpose (apply_update_data (flag_updates now j) j) = renovation_purpose j"
  "budget_range (apply_update_data (flag_updates now j) j) = budget_range j"
  "timeline (apply_update_data (flag_updates now j) j) = timeline j"
  "style_preference (apply_update_data (flag_updates now j) j) = style_preference j"
  "priority_feature (apply_update_data (flag_updates now j) j) = priority_feature j"
  "current_milestone (apply_update_data (flag_updates now j) j) = current_milestone j"
  by (simp_all add: flag_updates_def setattr_simps)

lemma flag_updates_flags:
  "milestone1_completed (apply_update_data (flag_updates now j) j) = (milestone1_completed j \<or> m1_complete j)"
  "milestone2_completed (apply_update_data (flag_updates now j) j) = (milestone2_completed j \<or> m2_complete j)"
  "milestone3_completed (apply_update_data (flag_updates now j) j) = (milestone3_completed j \<or> m3_complete j)"
  by (auto simp add: flag_updates_def setattr_simps)

lemma milestone_advance_fields:
  "room (apply_update_data (milestone_advance j) k) = room k"
  "renovation_purpose (apply_update_data (milestone_advance j) k) = renovation_purpose k"
  "budget_range (apply_update_data (milestone_advance j) k) = budget_range k"
  "timeline (apply_update_data (milestone_advance j) k) = timeline k"
  "style_preference (apply_update_data (milestone_advance j) k) = style_preference k"
  "priority_feature (apply_update_data (milestone_advance j) k) = priority_feature k"
  "milestone1_completed (apply_update_data (milestone_advance j) k) = milestone1_completed k"
  "milestone2_completed (apply_update_data (milestone_advance j) k) = milestone2_completed k"
  "milestone3_completed (apply_update_data (milestone_advance j) k) = milestone3_completed k"
  by (simp_all add: milestone_advance_def setattr_simps)

lemma milestone_advance_current:
  "current_milestone (apply_update_data (milestone_advance j) k) =
     (if highest_completed_milestone j < 3 \<and> current_milestone j < highest_completed_milestone j + 1
      then highest_completed_milestone j + 1 else current_milestone k)"
  by (simp add: milestone_advance_def setattr_simps)


lemma row_after_milestone_fields:
  "room (row_after t (milestone_update_data t j) j) = room j"
  "renovation_purpose (row_after t (milestone_update_data t j) j) = renovation_purpose j"
  "budget_range (row_after t (milestone_update_data t j) j) = budget_range j"
  "timeline (row_after t (milestone_update_data t j) j) = timeline j"
  "style_preference (row_after t (milestone_update_data t j) j) = style_preference j"
  "priority_feature (row_after t (milestone_update_data t j) j) = priority_feature j"
  by (simp_all add: row_after_def milestone_update_data_flat apply_update_data_append
      milestone_advance_fields flag_updates_fields)

lemma row_after_milestone_flags:
  "milestone1_completed (row_after t (milestone_update_data t j) j) = (milestone1_completed j \<or> m1_complete j)"
  "milestone2_completed (row_after t (milestone_update_data t j) j) = (milestone2_completed j \<or> m2_complete j)"
  "milestone3_completed (row_after t (milestone_update_data t j) j) = (milestone3_completed j \<or> m3_complete j)"
  by (simp_all add: row_after_def milestone_update_data_flat apply_update_data_append
      milestone_advance_fields flag_updates_flags)

lemma row_after_milestone_current:
  "current_milestone (row_after t (milestone_update_data t j) j) =
     (if highest_completed_milestone j < 3 \<and> current_milestone j < highest_completed_milestone j + 1
      then highest_completed_milestone j + 1 else current_milestone j)"
  by (simp add: row_after_def milestone_update_data_flat apply_update_data_append
      milestone_advance_current flag_updates_fields)

lemma row_after_milestone_complete:
  "m1_complete (row_after t (milestone_update_data t j) j) = m1_complete j"
  "m2_complete (row_after t (milestone_update_data t j) j) = m2_complete j"
  "m3_complete (row_after t (milestone_update_data t j) j) = m3_complete j"
  "highest_completed_milestone (row_after t (milestone_update_data t j) j) = highest_completed_milestone j"
  by (simp_all add: highest_completed_milestone_def m1_complete_def m2_complete_def m3_complete_def row_after_milestone_fields)

lemma milestone_fixed:
  "milestone_update_data t2 (row_after t1 (milestone_update_data t1 j) j) = []"
proof -
  let ?r = "row_after t1 (milestone_update_data t1 j) j"
  have "flag_updates t2 ?r = []"
    by (simp add: flag_updates_def row_after_milestone_complete row_after_milestone_flags)
  moreover have "milestone_advance ?r = []"
    by (simp add: milestone_advance_def row_after_milestone_complete row_after_milestone_current)
  ultimately show ?thesis
    by (simp add: milestone_update_data_flat)
qed

lemma truthy_not_None: "truthy x \<Longrightarrow> x \<noteq> None"
  by (cases x) simp_all

lemma milestone_inv:
  "flags_imply_fields j \<Longrightarrow> flags_imply_fields (row_after t (milestone_update_data t j) j)"
  unfolding flags_imply_fields_def row_after_milestone_fields row_after_milestone_flags
  by (auto simp: m1_complete_def m2_complete_def m3_complete_def dest: truthy_not_None)

lemma milestone_mono:
  "current_milestone j \<le> current_milestone (row_after t (milestone_update_data t j) j)"
  by (simp add: row_after_milestone_current)

lemma completion_fields:
  "room (row_after t (completion_update_data t j) j) = room j"
  "renovation_purpose (row_after t (completion_update_data t j) j) = renovation_purpose j"
  "budget_range (row_after t (completion_update_data t j) j) = budget_range j"
  "timeline (row_after t (completion_update_data t j) j) = timeline j"
  "style_preference (row_after t (completion_update_data t j) j) = style_preference j"
  "priority_feature (row_after t (completion_update_data t j) j) = priority_feature j"
  "current_milestone (row_after t (completion_update_data t j) j) = current_milestone j"
  by (simp_all add: row_after_def completion_update_data_def setattr_simps)

lemma completion_flags:
  "milestone1_completed (row_after t (completion_update_data t j) j) =
     (milestone1_completed j \<or> current_milestone j = 1 \<and> m1_complete j)"
  "milestone2_completed (row_after t (completion_update_data t j) j) =
     (milestone2_completed j \<or> current_milestone j = 2 \<and> m2_complete j)"
  "milestone3_completed (row_after t (completion_update_data t j) j) =
     (milestone3_completed j \<or> current_milestone j = 3 \<and> m3_complete j)"
  by (auto simp add: row_after_def completion_update_data_def setattr_simps
      m1_complete_def m2_complete_def m3_complete_def)

lemma completion_fixed:
  "completion_update_data t2 (row_after t1 (completion_update_data t1 j) j) = []"
  unfolding completion_update_data_def [of t2] completion_fields completion_flags
  by (auto simp: m1_complete_def m2_complete_def m3_complete_def)

lemma completion_inv:
  "flags_imply_fields j \<Longrightarrow> flags_imply_fields (row_after t (completion_update_data t j) j)"
  unfolding flags_imply_fields_def completion_fields completion_flags
  by (auto simp: m1_complete_def m2_complete_def m3_complete_def dest: truthy_not_None)


lemma id_row_after [simp]: "id' (row_after t data j) = id' j"
  by (simp add: row_after_def)

lemma get_journey_id: "get_journey db k = Some j \<Longrightarrow> id' j = k"
  by (induction db) (auto simp: get_journey_def split: if_splits)

lemma get_journey_mem: "get_journey db k = Some j \<Longrightarrow> j \<in> set db"
  by (induction db) (auto simp: get_journey_def split: if_splits)

lemma get_journey_store_row:
  "get_journey (store_row j db) k =
     (if k = id' j \<and> get_journey db k \<noteq> None then Some j else get_journey db k)"
  by (induction db) (auto simp: get_journey_def)

lemma set_store_row: "set (store_row j db) \<subseteq> insert j (set db)"
  by (induction db) auto

lemma crud_update_journey_found:
  "get_journey db k = Some j \<Longrightarrow>
   crud_update_journey now db k data =
     (Some (row_after now data j), store_row (row_after now data j) db)"
  by (simp add: crud_update_journey_def row_after_def Let_def)

lemma crud_update_journey_missing:
  "get_journey db k = None \<Longrightarrow> crud_update_journey now db k data = (None, db)"
  by (simp add: crud_update_journey_def)

lemma get_after_update:
  "get_journey db k = Some j \<Longrightarrow>
   get_journey (store_row (row_after now data j) db) k = Some (row_after now data j)"
  by (frule get_journey_id) (simp add: get_journey_store_row)

lemma completion_empty_time:
  "completion_update_data t1 j = [] \<Longrightarrow> completion_update_data t2 j = []"
  by (auto simp: completion_update_data_def split: if_splits)

lemma milestone_empty_time:
  "milestone_update_data t1 j = [] \<Longrightarrow> milestone_update_data t2 j = []"
  by (auto simp: milestone_update_data_flat flag_updates_def split: if_splits)

lemma check_milestone_completion_twice:
  "check_milestone_completion t2 (snd (check_milestone_completion t1 db k)) k =
   check_milestone_completion t1 db k"
proof (cases "get_journey db k")
  case None
  then show ?thesis by (simp add: check_milestone_completion_def)
next
  case (Some j)
  show ?thesis
  proof (cases "completion_update_data t1 j = []")
    case True
    with Some show ?thesis
      by (simp add: check_milestone_completion_def completion_empty_time [of t1 j t2])
  next
    case False
    let ?r = "row_after t1 (completion_update_data t1 j) j"
    have first: "check_milestone_completion t1 db k = (Some ?r, store_row ?r db)"
      using Some False by (simp add: check_milestone_completion_def crud_update_journey_found Let_def)
    have "get_journey (store_row ?r db) k = Some ?r"
      using Some by (rule get_after_update)
    then have "check_milestone_completion t2 (store_row ?r db) k = (Some ?r, store_row ?r db)"
      by (simp add: check_milestone_completion_def completion_fixed)
    with first show ?thesis by simp
  qed
qed

lemma update_milestone_twice:
  assumes "get_journey db (id' j) = Some j"
  shows "case update_milestone t1 db j of
           (Some j1, db1) \<Rightarrow>
             get_journey db1 (id' j) = Some j1 \<and> update_milestone t2 db1 j1 = (Some j1, db1)
         | (None, db1) \<Rightarrow> False"
proof (cases "milestone_update_data t1 j = []")
  case True
  with assms show ?thesis
    by (simp add: update_milestone_def milestone_empty_time [of t1 j t2])
next
  case False
  let ?r = "row_after t1 (milestone_update_data t1 j) j"
  have first: "update_milestone t1 db j = (Some ?r, store_row ?r db)"
    using assms False by (simp add: update_milestone_def crud_update_journey_found Let_def)
  have "get_journey (store_row ?r db) (id' j) = Some ?r"
    using assms by (rule get_after_update)
  moreover have "update_milestone t2 (store_row ?r db) ?r = (Some ?r, store_row ?r db)"
    by (simp add: update_milestone_def milestone_fixed)
  ultimately show ?thesis using first by simp
qed

lemma Sentinel_check_twice:
  assumes "get_journey db (id' j) = Some j"
  shows "case get_journey (Sentinel_check_milestone_completion t1 db j) (id' j) of
           Some j1 \<Rightarrow>
             Sentinel_check_milestone_completion t2
               (Sentinel_check_milestone_completion t1 db j) j1 =
             Sentinel_check_milestone_completion t1 db j
         | None \<Rightarrow> False"
proof (cases "completion_update_data t1 j = []")
  case True
  with assms show ?thesis
    by (simp add: Sentinel_check_milestone_completion_def completion_empty_time [of t1 j t2])
next
  case False
  let ?r = "row_after t1 (completion_update_data t1 j) j"
  have first: "Sentinel_check_milestone_completion t1 db j = store_row ?r db"
    using assms False by (simp add: Sentinel_check_milestone_completion_def crud_update_journey_found Let_def)
  have "get_journey (store_row ?r db) (id' j) = Some ?r"
    using assms by (rule get_after_update)
  moreover have "Sentinel_check_milestone_completion t2 (store_row ?r db) ?r = store_row ?r db"
    by (simp add: Sentinel_check_milestone_completion_def completion_fixed)
  ultimately show ?thesis using first by simp
qed


lemma inv_updated_at [simp]: "flags_imply_fields (j\<lparr>updated_at := t\<rparr>) = flags_imply_fields j"
  by (simp add: flags_imply_fields_def)

lemma setattr_str_inv:
  "flags_imply_fields j \<Longrightarrow> flags_imply_fields (setattr key (PyStr s) j)"
  by (simp add: setattr_def flags_imply_fields_def)

lemma apply_str_inv:
  "(\<And>kv. kv \<in> set data \<Longrightarrow> \<exists>s. snd kv = PyStr s) \<Longrightarrow> flags_imply_fields j \<Longrightarrow>
   flags_imply_fields (apply_update_data data j)"
proof (induction data j rule: apply_update_data.induct)
  case (1 j)
  then show ?case by simp
next
  case (2 key v rest j)
  from "2.prems"(1) [of "(key, v)"] obtain s where "v = PyStr s" by auto
  with "2.prems"(2) have "flags_imply_fields (setattr key v j)" by (simp add: setattr_str_inv)
  with "2.IH" "2.prems"(1) show ?case by simp
qed

lemma extract_field_str:
  "kv \<in> set (extract_field key kws m field) \<Longrightarrow> \<exists>s. snd kv = PyStr s"
  by (auto simp: extract_field_def split: option.splits)

lemma fallback_update_data_str:
  "kv \<in> set (fallback_update_data j m) \<Longrightarrow> \<exists>s. snd kv = PyStr s"
  by (auto simp: fallback_update_data_def Let_def dest: extract_field_str split: if_splits)

lemma crud_update_preserves:
  assumes "\<forall>r\<in>set db. P r"
    and "\<And>j. get_journey db k = Some j \<Longrightarrow> P (row_after t data j)"
  shows "\<forall>r\<in>set (snd (crud_update_journey t db k data)). P r"
proof (cases "get_journey db k")
  case None
  with assms(1) show ?thesis by (simp add: crud_update_journey_missing)
next
  case (Some j)
  then have "snd (crud_update_journey t db k data) = store_row (row_after t data j) db"
    by (simp add: crud_update_journey_found)
  moreover have "P (row_after t data j)" using Some by (rule assms(2))
  ultimately show ?thesis using assms(1) set_store_row [of "row_after t data j" db] by auto
qed

lemma update_milestone_preserves:
  assumes "\<forall>r\<in>set db. flags_imply_fields r" and "get_journey db (id' j) = Some j"
  shows "\<forall>r\<in>set (snd (update_milestone t db j)). flags_imply_fields r"
proof (cases "milestone_update_data t j = []")
  case True
  with assms(1) show ?thesis by (simp add: update_milestone_def)
next
  case False
  have "flags_imply_fields j" using assms by (auto dest: get_journey_mem)
  then have "\<forall>r\<in>set (snd (crud_update_journey t db (id' j) (milestone_update_data t j))).
      flags_imply_fields r"
    using assms by (intro crud_update_preserves) (simp_all add: milestone_inv)
  with False show ?thesis by (simp add: update_milestone_def Let_def)
qed

lemma completion_preserves:
  assumes "\<forall>r\<in>set db. flags_imply_fields r" and "get_journey db k = Some j"
  shows "\<forall>r\<in>set (snd (crud_update_journey t db k (completion_update_data t j))).
      flags_imply_fields r"
proof -
  have "flags_imply_fields j" using assms by (auto dest: get_journey_mem)
  then show ?thesis using assms by (intro crud_update_preserves) (simp_all add: completion_inv)
qed

lemma str_write_preserves:
  assumes "\<forall>r\<in>set db. flags_imply_fields r"
    and "\<And>kv. kv \<in> set data \<Longrightarrow> \<exists>s. snd kv = PyStr s"
  shows "\<forall>r\<in>set (snd (crud_update_journey t db k data)). flags_imply_fields r"
proof (rule crud_update_preserves [OF assms(1)])
  fix j assume "get_journey db k = Some j"
  with assms(1) have "flags_imply_fields j" by (auto dest: get_journey_mem)
  with assms(2) have "flags_imply_fields (apply_update_data data j)" by (rule apply_str_inv)
  then show "flags_imply_fields (row_after t data j)" by (simp add: row_after_def)
qed

lemma update_journey_preserves:
  assumes "\<forall>r\<in>set db. flags_imply_fields r"
  shows "\<forall>r\<in>set (snd (update_journey t db a b c)). flags_imply_fields r"
proof (cases "\<exists>jid cn v j. a = Some jid \<and> jid \<noteq> 0 \<and> b = Some cn \<and> cn \<noteq> [] \<and> c = Some v \<and> v \<noteq> []
    \<and> cn \<in> set valid_checkpoints \<and> get_journey db jid = Some j")
  case False
  then have "snd (update_journey t db a b c) = db"
    by (cases a; cases b; cases c) (auto simp: update_journey_def split: option.splits)
  with assms show ?thesis by simp
next
  case True
  then obtain jid cn v j where h: "a = Some jid" "jid \<noteq> 0" "b = Some cn" "cn \<noteq> []" "c = Some v"
    "v \<noteq> []" "cn \<in> set valid_checkpoints" "get_journey db jid = Some j" by blast
  let ?r = "row_after t [(cn, PyStr v)] j"
  let ?db1 = "store_row ?r db"
  have upd: "crud_update_journey t db jid [(cn, PyStr v)] = (Some ?r, ?db1)"
    using h(8) by (rule crud_update_journey_found)
  have res: "snd (update_journey t db a b c) = snd (update_milestone t ?db1 ?r)"
    using h upd by (simp add: update_journey_def)
  have "\<forall>r\<in>set (snd (crud_update_journey t db jid [(cn, PyStr v)])). flags_imply_fields r"
    using assms by (rule str_write_preserves) simp
  then have inv1: "\<forall>r\<in>set ?db1. flags_imply_fields r" using upd by simp
  have "get_journey ?db1 jid = Some ?r" using h(8) by (rule get_after_update)
  moreover have "id' ?r = jid" using h(8) by (simp add: get_journey_id)
  ultimately have "get_journey ?db1 (id' ?r) = Some ?r" by simp
  with inv1 have "\<forall>r\<in>set (snd (update_milestone t ?db1 ?r)). flags_imply_fields r"
    by (rule update_milestone_preserves)
  with res show ?thesis by simp
qed

section \<open>Properties of the normalizer\<close>

lemma budget_first_match:
  "validate_checkpoint_value ''budget_range'' raw =
     first_matching_category budget_categories ''medium'' (lower (strip raw))"
  by (simp add: validate_checkpoint_value_def validate_budget_range_def
      first_matching_category_def budget_categories_def Let_def)

lemma timeline_first_match:
  "validate_checkpoint_value ''timeline'' raw =
     first_matching_category timeline_categories ''months'' (lower (strip raw))"
  by (simp add: validate_checkpoint_value_def validate_timeline_def
      first_matching_category_def timeline_categories_def Let_def)

lemma style_first_match:
  "validate_checkpoint_value ''style_preference'' raw =
     first_matching_category style_categories ''modern'' (lower (strip raw))"
  by (simp add: validate_checkpoint_value_def validate_style_preference_def
      first_matching_category_def style_categories_def Let_def)

lemma feature_first_match:
  "validate_checkpoint_value ''priority_feature'' raw =
     first_matching_category feature_categories ''space'' (lower (strip raw))"
  by (simp add: validate_checkpoint_value_def validate_priority_feature_def
      first_matching_category_def feature_categories_def Let_def)

lemma any_in_append: "any_in (xs @ ys) v = (any_in xs v \<or> any_in ys v)"
  by (auto simp: any_in_def list_ex_iff)

lemma first_matching_default:
  "\<not> any_in (concat (map fst groups)) v \<Longrightarrow> first_matching_category groups d v = d"
  by (induction groups) (auto simp: first_matching_category_def any_in_append split: option.splits)

lemma budget_default:
  "\<not> any_in (concat (map fst budget_categories)) (lower (strip raw)) \<Longrightarrow>
   validate_checkpoint_value ''budget_range'' raw = ''medium''"
  by (simp add: budget_first_match first_matching_default)

lemma timeline_default:
  "\<not> any_in (concat (map fst timeline_categories)) (lower (strip raw)) \<Longrightarrow>
   validate_checkpoint_value ''timeline'' raw = ''months''"
  by (simp add: timeline_first_match first_matching_default)

lemma style_default:
  "\<not> any_in (concat (map fst style_categories)) (lower (strip raw)) \<Longrightarrow>
   validate_checkpoint_value ''style_preference'' raw = ''modern''"
  by (simp add: style_first_match first_matching_default)

lemma feature_default:
  "\<not> any_in (concat (map fst feature_categories)) (lower (strip raw)) \<Longrightarrow>
   validate_checkpoint_value ''priority_feature'' raw = ''space''"
  by (simp add: feature_first_match first_matching_default)

text \<open>
  Claim C8. The normalizer is a function of the checkpoint name and the raw value with the
  four stated results: ``very affordable option'' is a low budget, ``need it done in two
  weeks'' is a timeline of weeks, ``something with clean lines'' is the modern style and
  ``eco-friendly appliances please'' is the priority feature energy efficiency. For each of
  the four constrained checkpoints the categories are tried in a fixed order and the first
  one with a keyword in the stripped, lowered value decides, also when keywords of several
  categories occur (a value with both ``luxury'' and ``cheap'' is low: low is tried before
  high); a value with no keyword of any category gets the default: medium, months, modern,
  space.
\<close>

theorem normalizer_examples_and_defaults:
  "validate_checkpoint_value ''budget_range'' ''very affordable option'' = ''low'' \<and>
   validate_checkpoint_value ''timeline'' ''need it done in two weeks'' = ''weeks'' \<and>
   validate_checkpoint_value ''style_preference'' ''something with clean lines'' = ''modern'' \<and>
   validate_checkpoint_value ''priority_feature'' ''eco-friendly appliances please'' =
     ''energy efficiency'' \<and>
   validate_checkpoint_value ''budget_range'' ''luxury finishes but cheap labour'' = ''low'' \<and>
   validate_checkpoint_value ''budget_range'' raw =
     first_matching_category budget_categories ''medium'' (lower (strip raw)) \<and>
   validate_checkpoint_value ''timeline'' raw =
     first_matching_category timeline_categories ''months'' (lower (strip raw)) \<and>
   validate_checkpoint_value ''style_preference'' raw =
     first_matching_category style_categories ''modern'' (lower (strip raw)) \<and>
   validate_checkpoint_value ''priority_feature'' raw =
     first_matching_category feature_categories ''space'' (lower (strip raw)) \<and>
   (\<not> any_in (concat (map fst budget_categories)) (lower (strip raw)) \<longrightarrow>
      validate_checkpoint_value ''budget_range'' raw = ''medium'') \<and>
   (\<not> any_in (concat (map fst timeline_categories)) (lower (strip raw)) \<longrightarrow>
      validate_checkpoint_value ''timeline'' raw = ''months'') \<and>
   (\<not> any_in (concat (map fst style_categories)) (lower (strip raw)) \<longrightarrow>
      validate_checkpoint_value ''style_preference'' raw = ''modern'') \<and>
   (\<not> any_in (concat (map fst feature_categories)) (lower (strip raw)) \<longrightarrow>
      validate_checkpoint_value ''priority_feature'' raw = ''space'')"
proof -
  have e1: "validate_checkpoint_value ''budget_range'' ''very affordable option'' = ''low''"
    by code_simp
  have e2: "validate_checkpoint_value ''timeline'' ''need it done in two weeks'' = ''weeks''"
    by code_simp
  have e3: "validate_checkpoint_value ''style_preference'' ''something with clean lines'' =
      ''modern''"
    by code_simp
  have e4: "validate_checkpoint_value ''priority_feature'' ''eco-friendly appliances please'' =
      ''energy efficiency''"
    by code_simp
  have e5: "validate_checkpoint_value ''budget_range'' ''luxury finishes but cheap labour'' =
      ''low''"
    by code_simp
  from e1 e2 e3 e4 e5 show ?thesis
    using budget_first_match [of raw] timeline_first_match [of raw] style_first_match [of raw]
      feature_first_match [of raw] budget_default [of raw] timeline_default [of raw]
      style_default [of raw] feature_default [of raw]
    by blast
qed

theorem normalizer_examples_and_defaults_witness:
  "\<not> any_in (concat (map fst budget_categories)) (lower (strip ''Whatever '')) \<and>
   \<not> any_in (concat (map fst timeline_categories)) (lower (strip ''Whatever '')) \<and>
   \<not> any_in (concat (map fst style_categories)) (lower (strip ''Whatever '')) \<and>
   \<not> any_in (concat (map fst feature_categories)) (lower (strip ''Whatever '')) \<and>
   validate_checkpoint_value ''budget_range'' ''Whatever '' = ''medium'' \<and>
   validate_checkpoint_value ''timeline'' ''Whatever '' = ''months'' \<and>
   validate_checkpoint_value ''style_preference'' ''Whatever '' = ''modern'' \<and>
   validate_checkpoint_value ''priority_feature'' ''Whatever '' = ''space''"
proof -
  have h1: "\<not> any_in (concat (map fst budget_categories)) (lower (strip ''Whatever ''))"
    by code_simp
  have h2: "\<not> any_in (concat (map fst timeline_categories)) (lower (strip ''Whatever ''))"
    by code_simp
  have h3: "\<not> any_in (concat (map fst style_categories)) (lower (strip ''Whatever ''))"
    by code_simp
  have h4: "\<not> any_in (concat (map fst feature_categories)) (lower (strip ''Whatever ''))"
    by code_simp
  from h1 h2 h3 h4 show ?thesis
    using normalizer_examples_and_defaults [of "''Whatever ''"] by blast
qed

section \<open>Idempotence of the Completion Evaluator\<close>

text \<open>
  Claim C6. Running an evaluator a second time, at any later clock reading, on the state
  that its first run left changes nothing: the table after the second run is the table after
  the first, row for row and field for field (checkpoint fields, flags, completion
  timestamps, \<open>updated_at\<close>, milestone and status), and the second run returns the journey
  that the first returned. This holds for the current-milestone check, both as
  \<^verbatim>\<open>crud.check_milestone_completion\<close> on a journey id and as
  \<^verbatim>\<open>Sentinel._check_milestone_completion\<close> on the journey as stored, and for the
  all-milestones variant \<^verbatim>\<open>update_milestone\<close> on the journey as stored.
\<close>

theorem evaluator_idempotent:
  "check_milestone_completion t2 (snd (check_milestone_completion t1 db k)) k =
     check_milestone_completion t1 db k \<and>
   (get_journey db (id' j) = Some j \<longrightarrow>
      (case update_milestone t1 db j of
         (Some j1, db1) \<Rightarrow>
           get_journey db1 (id' j) = Some j1 \<and> update_milestone t2 db1 j1 = (Some j1, db1)
       | (None, db1) \<Rightarrow> False) \<and>
      (case get_journey (Sentinel_check_milestone_completion t1 db j) (id' j) of
         Some j1 \<Rightarrow>
           Sentinel_check_milestone_completion t2
             (Sentinel_check_milestone_completion t1 db j) j1 =
           Sentinel_check_milestone_completion t1 db j
       | None \<Rightarrow> False))"
proof (intro conjI impI)
  show "check_milestone_completion t2 (snd (check_milestone_completion t1 db k)) k =
      check_milestone_completion t1 db k"
    by (rule check_milestone_completion_twice)
next
  assume "get_journey db (id' j) = Some j"
  then show "case update_milestone t1 db j of
      (Some j1, db1) \<Rightarrow>
        get_journey db1 (id' j) = Some j1 \<and> update_milestone t2 db1 j1 = (Some j1, db1)
    | (None, db1) \<Rightarrow> False"
    by (rule update_milestone_twice)
next
  assume "get_journey db (id' j) = Some j"
  then show "case get_journey (Sentinel_check_milestone_completion t1 db j) (id' j) of
      Some j1 \<Rightarrow>
        Sentinel_check_milestone_completion t2
          (Sentinel_check_milestone_completion t1 db j) j1 =
        Sentinel_check_milestone_completion t1 db j
    | None \<Rightarrow> False"
    by (rule Sentinel_check_twice)
qed

theorem evaluator_idempotent_witness:
  "get_journey [basics_filled] (id' basics_filled) = Some basics_filled \<and>
   milestone1_completed (the (get_journey (snd (update_milestone 5 [basics_filled] basics_filled)) 1)) \<and>
   check_milestone_completion 9 (snd (check_milestone_completion 5 [basics_filled] 1)) 1 =
     check_milestone_completion 5 [basics_filled] 1 \<and>
   (case update_milestone 5 [basics_filled] basics_filled of
      (Some j1, db1) \<Rightarrow>
        get_journey db1 (id' basics_filled) = Some j1 \<and>
        update_milestone 9 db1 j1 = (Some j1, db1)
    | (None, db1) \<Rightarrow> False) \<and>
   (case get_journey (Sentinel_check_milestone_completion 5 [basics_filled] basics_filled)
           (id' basics_filled) of
      Some j1 \<Rightarrow>
        Sentinel_check_milestone_completion 9
          (Sentinel_check_milestone_completion 5 [basics_filled] basics_filled) j1 =
        Sentinel_check_milestone_completion 5 [basics_filled] basics_filled
    | None \<Rightarrow> False)"
proof -
  have h: "get_journey [basics_filled] (id' basics_filled) = Some basics_filled"
    by (simp add: get_journey_def)
  have c: "milestone1_completed
      (the (get_journey (snd (update_milestone 5 [basics_filled] basics_filled)) 1))"
    by code_simp
  note t = evaluator_idempotent [where ?t1.0 = 5 and ?t2.0 = 9 and db = "[basics_filled]"
      and k = 1 and j = basics_filled]
  note a = t [THEN conjunct1]
  note b = t [THEN conjunct2, THEN mp, OF h]
  from h c a b [THEN conjunct1] b [THEN conjunct2] show ?thesis
    by (intro conjI)
qed

section \<open>The completion-flag invariant\<close>

lemma create_journey_preserves:
  "\<forall>r\<in>set db. flags_imply_fields r \<Longrightarrow>
   \<forall>r\<in>set (snd (create_journey t db uid)). flags_imply_fields r"
  by (simp add: create_journey_def Let_def flags_imply_fields_def)

lemma check_milestone_completion_preserves:
  assumes "\<forall>r\<in>set db. flags_imply_fields r"
  shows "\<forall>r\<in>set (snd (check_milestone_completion t db k)). flags_imply_fields r"
proof (cases "get_journey db k")
  case None
  with assms show ?thesis by (simp add: check_milestone_completion_def)
next
  case (Some j)
  with assms have "\<forall>r\<in>set (snd (crud_update_journey t db k (completion_update_data t j))).
      flags_imply_fields r"
    by (rule completion_preserves)
  with Some assms show ?thesis by (simp add: check_milestone_completion_def Let_def)
qed

lemma JourneyHandler_check_preserves:
  assumes "\<forall>r\<in>set db. flags_imply_fields r" and "get_journey db (id' j) = Some j"
  shows "\<forall>r\<in>set (JourneyHandler_check_milestone_completion t db j). flags_imply_fields r"
  using assms completion_preserves [OF assms(1) assms(2), of t]
  by (simp add: JourneyHandler_check_milestone_completion_def Let_def)

lemma analyze_message_preserves:
  assumes "\<forall>r\<in>set db. flags_imply_fields r" and "get_journey db (id' j) = Some j"
  shows "\<forall>r\<in>set (snd (analyze_message_for_checkpoints t db j m)). flags_imply_fields r"
proof (cases "fallback_update_data j m = []")
  case True
  with assms(1) show ?thesis by (simp add: analyze_message_for_checkpoints_def)
next
  case False
  let ?r = "row_after t (fallback_update_data j m) j"
  let ?db1 = "store_row ?r db"
  have upd: "crud_update_journey t db (id' j) (fallback_update_data j m) = (Some ?r, ?db1)"
    using assms(2) by (rule crud_update_journey_found)
  have "\<forall>r\<in>set (snd (crud_update_journey t db (id' j) (fallback_update_data j m))).
      flags_imply_fields r"
    using assms(1) by (rule str_write_preserves) (rule fallback_update_data_str)
  then have inv1: "\<forall>r\<in>set ?db1. flags_imply_fields r" using upd by simp
  have get1: "get_journey ?db1 (id' j) = Some ?r" using assms(2) by (rule get_after_update)
  then have "get_journey ?db1 (id' ?r) = Some ?r" by simp
  with inv1 have "\<forall>r\<in>set (JourneyHandler_check_milestone_completion t ?db1 ?r).
      flags_imply_fields r"
    by (rule JourneyHandler_check_preserves)
  with False upd get1 show ?thesis
    by (simp add: analyze_message_for_checkpoints_def Let_def)
qed

lemma step_preserves:
  assumes "\<forall>r\<in>set db. flags_imply_fields r"
  shows "\<forall>r\<in>set (step t ev db). flags_imply_fields r"
proof (cases ev)
  case (Create uid)
  with assms show ?thesis by (simp add: create_journey_preserves)
next
  case (UpdateCheckpoint k cn v)
  have "\<forall>r\<in>set (snd (crud_update_journey t db k [(cn, PyStr v)])). flags_imply_fields r"
    using assms by (rule str_write_preserves) simp
  with UpdateCheckpoint assms show ?thesis by (simp add: update_checkpoint_def)
next
  case (CheckCompletion k)
  with assms show ?thesis by (simp add: check_milestone_completion_preserves)
next
  case (UpdateMilestone k)
  show ?thesis
  proof (cases "get_journey db k")
    case None
    with UpdateMilestone assms show ?thesis by simp
  next
    case (Some j)
    then have "get_journey db (id' j) = Some j" by (simp add: get_journey_id)
    with assms have "\<forall>r\<in>set (snd (update_milestone t db j)). flags_imply_fields r"
      by (rule update_milestone_preserves)
    with UpdateMilestone Some show ?thesis by simp
  qed
next
  case (SentinelUpdate a b c)
  with assms show ?thesis by (simp add: update_journey_preserves)
next
  case (Fallback k m)
  show ?thesis
  proof (cases "get_journey db k")
    case None
    with Fallback assms show ?thesis by simp
  next
    case (Some j)
    then have "get_journey db (id' j) = Some j" by (simp add: get_journey_id)
    with assms have "\<forall>r\<in>set (snd (analyze_message_for_checkpoints t db j m)). flags_imply_fields r"
      by (rule analyze_message_preserves)
    with Fallback Some show ?thesis by simp
  qed
qed

lemma run_preserves:
  "\<forall>r\<in>set db. flags_imply_fields r \<Longrightarrow> \<forall>r\<in>set (run evs db). flags_imply_fields r"
proof (induction evs arbitrary: db)
  case Nil
  then show ?case by simp
next
  case (Cons a evs)
  obtain t ev where a: "a = (t, ev)" by (cases a)
  from Cons.prems have "\<forall>r\<in>set (step t ev db). flags_imply_fields r" by (rule step_preserves)
  then have "\<forall>r\<in>set (run evs (step t ev db)). flags_imply_fields r" by (rule Cons.IH)
  with a show ?case by simp
qed

text \<open>
  Claim C4. Start from the empty table and apply any sequence of events: journey creation
  (milestone 1, status in_progress, all checkpoints null, all flags false), single-field
  checkpoint writes with string values, runs of the current-milestone evaluator and of the
  all-milestones evaluator, calls of the Sentinel's tool handler and of the fallback
  extractor. In every journey of the resulting table, for each N in 1..3, a true
  \<open>milestoneN_completed\<close> comes with both checkpoint fields of milestone N non-null.
\<close>

theorem completion_flag_invariant:
  "\<forall>j\<in>set (run evs []). flags_imply_fields j"
  by (rule run_preserves) simp

theorem completion_flag_invariant_witness:
  "map (\<lambda>j. (id' j, milestone1_completed j, room j, renovation_purpose j, current_milestone j))
     (run basics_history []) = [(1, True, Some ''kitchen'', Some ''repair'', 2)] \<and>
   list_all flags_imply_fields (run basics_history [])"
proof -
  have "map (\<lambda>j. (id' j, milestone1_completed j, room j, renovation_purpose j,
      current_milestone j)) (run basics_history []) = [(1, True, Some ''kitchen'', Some ''repair'', 2)]"
    by code_simp
  moreover from completion_flag_invariant [of basics_history]
  have "list_all flags_imply_fields (run basics_history [])"
    by (simp only: list_all_iff)
  ultimately show ?thesis by (intro conjI)
qed

section \<open>Milestone recomputation\<close>

text \<open>
  Claim C5, evaluated where it fails. Four accepted calls of the Sentinel's tool handler on a
  new journey (room, renovation_purpose, style_preference, then priority_feature) lead to a
  journey at \<open>current_milestone = 2\<close> whose two milestone-3 checkpoints are filled, so the
  highest completed milestone is 3. \<^verbatim>\<open>update_milestone\<close> on that journey sets the
  milestone-3 flag and the status \<open>completed\<close> and leaves \<open>current_milestone\<close> at 2: its
  milestone step is skipped whenever the highest completed milestone is 3.
\<close>

theorem update_milestone_stays_behind:
  "get_journey (run sentinel_history []) 1 =
     Some (style_known_at_2\<lparr>priority_feature := None, updated_at := 4\<rparr>) \<and>
   crud_update_journey 5 (run sentinel_history []) 1 [(''priority_feature'', PyStr ''storage'')] =
     (Some style_known_at_2, [style_known_at_2]) \<and>
   current_milestone style_known_at_2 = 2 \<and>
   highest_completed_milestone style_known_at_2 = 3 \<and>
   map (\<lambda>j. (current_milestone j, milestone3_completed j, status j))
     (snd (update_milestone 5 [style_known_at_2] style_known_at_2)) = [(2, True, ''completed'')] \<and>
   map (\<lambda>j. (current_milestone j, milestone3_completed j, status j))
     (run (sentinel_history @
        [(5, SentinelUpdate (Some 1) (Some ''priority_feature'') (Some ''storage''))]) []) =
     [(2, True, ''completed'')]"
  by code_simp

section \<open>The Prompt Selector\<close>

lemma template_of_get_prompt:
  "template_of (get_prompt_for_journey j ctx cps) =
     (if status j = ''completed'' then JOURNEY_COMPLETE
      else if current_milestone j = 1 then
        (if milestone1_completed j then MILESTONE_1_COMPLETE
         else if ''room'' \<in> set cps \<and> ''renovation_purpose'' \<notin> set cps then MILESTONE_1_ROOM_KNOWN
         else if ''renovation_purpose'' \<in> set cps \<and> ''room'' \<notin> set cps
           then MILESTONE_1_PURPOSE_KNOWN
         else MILESTONE_1_INTRO)
      else if current_milestone j = 2 then
        (if milestone2_completed j then MILESTONE_2_COMPLETE
         else if ''budget_range'' \<in> set cps \<and> ''timeline'' \<notin> set cps
           then MILESTONE_2_BUDGET_KNOWN
         else if ''timeline'' \<in> set cps \<and> ''budget_range'' \<notin> set cps
           then MILESTONE_2_TIMELINE_KNOWN
         else MILESTONE_2_INTRO)
      else if current_milestone j = 3 then
        (if milestone3_completed j then MILESTONE_3_COMPLETE
         else if ''style_preference'' \<in> set cps \<and> ''priority_feature'' \<notin> set cps
           then MILESTONE_3_STYLE_KNOWN
         else if ''priority_feature'' \<in> set cps \<and> ''style_preference'' \<notin> set cps
           then MILESTONE_3_FEATURE_KNOWN
         else MILESTONE_3_INTRO)
      else DEFAULT_PROMPT)"
  by (simp add: get_prompt_for_journey_def)

lemma room_known_selected:
  assumes "status j \<noteq> ''completed''" "current_milestone j = 1" "\<not> milestone1_completed j"
    "truthy (room j)" "renovation_purpose j = None"
  shows "template_of (get_prompt_for_journey j ctx (get_completed_checkpoints j)) =
     MILESTONE_1_ROOM_KNOWN"
  using assms by (simp add: template_of_get_prompt get_completed_checkpoints_def)

text \<open>
  Claim C7. \<^verbatim>\<open>get_prompt_for_journey\<close> returns the journey-complete template, formatted
  with the six checkpoint values, when the status is \<open>completed\<close>. Otherwise it branches on
  \<open>current_milestone\<close>: at milestone 1, 2 or 3 it takes the milestone's complete template
  when the milestone's flag is set, else the A-known template when checkpoint A is in
  \<open>completed_checkpoints\<close> and B is not, else the B-known template when B is in and A is
  not, else the intro template; at any other milestone it takes the default prompt. In
  particular a journey in progress at milestone 1 whose flag is unset, with the room set to
  a non-empty value and no renovation purpose, gets the room-known template for the list
  that \<^verbatim>\<open>_get_completed_checkpoints\<close> computes, not the intro.
\<close>

theorem prompt_priority_tree:
  "(status j = ''completed'' \<longrightarrow>
      get_prompt_for_journey j ctx cps =
        Format JOURNEY_COMPLETE
          [(''room'', room j), (''renovation_purpose'', renovation_purpose j),
           (''budget_range'', budget_range j), (''timeline'', timeline j),
           (''style_preference'', style_preference j),
           (''priority_feature'', priority_feature j)] ctx None) \<and>
   (status j \<noteq> ''completed'' \<longrightarrow>
      (current_milestone j = 1 \<longrightarrow>
         template_of (get_prompt_for_journey j ctx cps) =
           (if milestone1_completed j then MILESTONE_1_COMPLETE
            else if ''room'' \<in> set cps \<and> ''renovation_purpose'' \<notin> set cps
              then MILESTONE_1_ROOM_KNOWN
            else if ''renovation_purpose'' \<in> set cps \<and> ''room'' \<notin> set cps
              then MILESTONE_1_PURPOSE_KNOWN
            else MILESTONE_1_INTRO)) \<and>
      (current_milestone j = 2 \<longrightarrow>
         template_of (get_prompt_for_journey j ctx cps) =
           (if milestone2_completed j then MILESTONE_2_COMPLETE
            else if ''budget_range'' \<in> set cps \<and> ''timeline'' \<notin> set cps
              then MILESTONE_2_BUDGET_KNOWN
            else if ''timeline'' \<in> set cps \<and> ''budget_range'' \<notin> set cps
              then MILESTONE_2_TIMELINE_KNOWN
            else MILESTONE_2_INTRO)) \<and>
      (current_milestone j = 3 \<longrightarrow>
         template_of (get_prompt_for_journey j ctx cps) =
           (if milestone3_completed j then MILESTONE_3_COMPLETE
            else if ''style_preference'' \<in> set cps \<and> ''priority_feature'' \<notin> set cps
              then MILESTONE_3_STYLE_KNOWN
            else if ''priority_feature'' \<in> set cps \<and> ''style_preference'' \<notin> set cps
              then MILESTONE_3_FEATURE_KNOWN
            else MILESTONE_3_INTRO)) \<and>
      (current_milestone j \<notin> {1, 2, 3} \<longrightarrow>
         get_prompt_for_journey j ctx cps = Format DEFAULT_PROMPT [] ctx None)) \<and>
   (status j \<noteq> ''completed'' \<and> current_milestone j = 1 \<and> \<not> milestone1_completed j \<and>
    truthy (room j) \<and> renovation_purpose j = None \<longrightarrow>
      get_prompt_for_journey j ctx (get_completed_checkpoints j) =
        Format MILESTONE_1_ROOM_KNOWN [(''room'', room j)] ctx (Some [''room'']))"
proof (intro conjI impI)
  assume "status j = ''completed''"
  then show "get_prompt_for_journey j ctx cps =
        Format JOURNEY_COMPLETE
          [(''room'', room j), (''renovation_purpose'', renovation_purpose j),
           (''budget_range'', budget_range j), (''timeline'', timeline j),
           (''style_preference'', style_preference j),
           (''priority_feature'', priority_feature j)] ctx None"
    by (simp add: get_prompt_for_journey_def)
next
  assume "status j \<noteq> ''completed''" "current_milestone j = 1"
  then show "template_of (get_prompt_for_journey j ctx cps) =
           (if milestone1_completed j then MILESTONE_1_COMPLETE
            else if ''room'' \<in> set cps \<and> ''renovation_purpose'' \<notin> set cps
              then MILESTONE_1_ROOM_KNOWN
            else if ''renovation_purpose'' \<in> set cps \<and> ''room'' \<notin> set cps
              then MILESTONE_1_PURPOSE_KNOWN
            else MILESTONE_1_INTRO)"
    by (simp add: template_of_get_prompt)
next
  assume "status j \<noteq> ''completed''" "current_milestone j = 2"
  then show "template_of (get_prompt_for_journey j ctx cps) =
           (if milestone2_completed j then MILESTONE_2_COMPLETE
            else if ''budget_range'' \<in> set cps \<and> ''timeline'' \<notin> set cps
              then MILESTONE_2_BUDGET_KNOWN
            else if ''timeline'' \<in> set cps \<and> ''budget_range'' \<notin> set cps
              then MILESTONE_2_TIMELINE_KNOWN
            else MILESTONE_2_INTRO)"
    by (simp add: template_of_get_prompt)
next
  assume "status j \<noteq> ''completed''" "current_milestone j = 3"
  then show "template_of (get_prompt_for_journey j ctx cps) =
           (if milestone3_completed j then MILESTONE_3_COMPLETE
            else if ''style_preference'' \<in> set cps \<and> ''priority_feature'' \<notin> set cps
              then MILESTONE_3_STYLE_KNOWN
            else if ''priority_feature'' \<in> set cps \<and> ''style_preference'' \<notin> set cps
              then MILESTONE_3_FEATURE_KNOWN
            else MILESTONE_3_INTRO)"
    by (simp add: template_of_get_prompt)
next
  assume "status j \<noteq> ''completed''" "current_milestone j \<notin> {1, 2, 3}"
  then show "get_prompt_for_journey j ctx cps = Format DEFAULT_PROMPT [] ctx None"
    by (simp add: get_prompt_for_journey_def)
next
  assume "status j \<noteq> ''completed'' \<and> current_milestone j = 1 \<and> \<not> milestone1_completed j \<and>
    truthy (room j) \<and> renovation_purpose j = None"
  then show "get_prompt_for_journey j ctx (get_completed_checkpoints j) =
        Format MILESTONE_1_ROOM_KNOWN [(''room'', room j)] ctx (Some [''room''])"
    by (simp add: get_prompt_for_journey_def get_completed_checkpoints_def)
qed

theorem prompt_priority_tree_witness:
  "status room_known \<noteq> ''completed'' \<and> current_milestone room_known = 1 \<and>
   \<not> milestone1_completed room_known \<and> truthy (room room_known) \<and>
   renovation_purpose room_known = None \<and> room room_known = Some ''kitchen'' \<and>
   get_prompt_for_journey room_known () (get_completed_checkpoints room_known) =
     Format MILESTONE_1_ROOM_KNOWN [(''room'', room room_known)] () (Some [''room''])"
proof -
  have h: "status room_known \<noteq> ''completed'' \<and> current_milestone room_known = 1 \<and>
    \<not> milestone1_completed room_known \<and> truthy (room room_known) \<and>
    renovation_purpose room_known = None"
    by code_simp
  have k: "room room_known = Some ''kitchen''" by code_simp
  note t = prompt_priority_tree [where j = room_known and ctx = "()" and cps = "[]"]
  from t [THEN conjunct2, THEN conjunct2, THEN mp, OF h] h k show ?thesis
    by (intro conjI) (elim conjE, assumption)+
qed

section \<open>The Sentinel's tool handler\<close>

lemma checkpoint_field_write:
  "cn \<in> set valid_checkpoints \<Longrightarrow>
   checkpoint_field c (row_after t [(cn, PyStr v)] j) =
     (if c = cn then Some v else checkpoint_field c j)"
  by (auto simp: valid_checkpoints_def checkpoint_field_def row_after_def setattr_simps)

lemma checkpoint_field_milestone:
  "checkpoint_field c (row_after t (milestone_update_data t j) j) = checkpoint_field c j"
  by (simp add: checkpoint_field_def row_after_milestone_fields)

lemma update_milestone_row:
  assumes "get_journey db (id' j) = Some j"
  shows "\<exists>j'. get_journey (snd (update_milestone t db j)) (id' j) = Some j' \<and>
     (\<forall>c. checkpoint_field c j' = checkpoint_field c j)"
proof (cases "milestone_update_data t j = []")
  case True
  with assms show ?thesis by (simp add: update_milestone_def)
next
  case False
  let ?r = "row_after t (milestone_update_data t j) j"
  have "snd (update_milestone t db j) = store_row ?r db"
    using assms False by (simp add: update_milestone_def crud_update_journey_found Let_def)
  moreover have "get_journey (store_row ?r db) (id' j) = Some ?r"
    using assms by (rule get_after_update)
  ultimately show ?thesis by (simp add: checkpoint_field_milestone)
qed

lemma update_journey_accepted:
  assumes "jid \<noteq> 0" "cn \<in> set valid_checkpoints" "v \<noteq> []" "get_journey db jid = Some j"
  shows "fst (update_journey t db (Some jid) (Some cn) (Some v)) = Success cn v jid"
    and "\<exists>j'. get_journey (snd (update_journey t db (Some jid) (Some cn) (Some v))) jid = Some j' \<and>
      (\<forall>c. checkpoint_field c j' = (if c = cn then Some v else checkpoint_field c j))"
proof -
  let ?r = "row_after t [(cn, PyStr v)] j"
  let ?db1 = "store_row ?r db"
  from assms(2) have ne: "cn \<noteq> []" by (auto simp: valid_checkpoints_def)
  have upd: "crud_update_journey t db jid [(cn, PyStr v)] = (Some ?r, ?db1)"
    using assms(4) by (rule crud_update_journey_found)
  have res: "update_journey t db (Some jid) (Some cn) (Some v) =
      (Success cn v jid, snd (update_milestone t ?db1 ?r))"
    using assms ne upd by (simp add: update_journey_def)
  then show "fst (update_journey t db (Some jid) (Some cn) (Some v)) = Success cn v jid"
    by simp
  have idr: "id' ?r = jid" using assms(4) by (simp add: get_journey_id)
  have "get_journey ?db1 jid = Some ?r" using assms(4) by (rule get_after_update)
  with idr have "get_journey ?db1 (id' ?r) = Some ?r" by simp
  from update_milestone_row [OF this, of t] obtain j' where
    j': "get_journey (snd (update_milestone t ?db1 ?r)) jid = Some j'"
      "\<forall>c. checkpoint_field c j' = checkpoint_field c ?r"
    using idr by auto
  from j'(2) assms(2) have "\<forall>c. checkpoint_field c j' =
      (if c = cn then Some v else checkpoint_field c j)"
    by (simp add: checkpoint_field_write)
  with j'(1) res show "\<exists>j'. get_journey (snd (update_journey t db (Some jid) (Some cn) (Some v)))
      jid = Some j' \<and> (\<forall>c. checkpoint_field c j' = (if c = cn then Some v else checkpoint_field c j))"
    by simp
qed

lemma update_journey_rejected:
  assumes "\<not> passes_checks db a b c"
  shows "snd (update_journey t db a b c) = db" and "is_error (fst (update_journey t db a b c))"
  using assms
  by (cases a; cases b; cases c; auto simp: update_journey_def passes_checks_def)+

lemma target_is_first_unfilled:
  "snd (get_next_checkpoint_to_extract j) =
     find (\<lambda>c. \<not> truthy (checkpoint_field c j))
       (get_valid_checkpoints_for_milestone (current_milestone j))"
  by (simp add: get_next_checkpoint_to_extract_def get_valid_checkpoints_for_milestone_def
      checkpoint_field_def)

lemma target_unfilled:
  "snd (get_next_checkpoint_to_extract j) = Some c \<Longrightarrow> \<not> truthy (checkpoint_field c j)"
  unfolding target_is_first_unfilled by (auto simp: find_Some_iff)

lemma normalizer_range:
  "cn \<in> set [''budget_range'', ''timeline'', ''style_preference'', ''priority_feature''] \<Longrightarrow>
   validate_checkpoint_value cn raw \<in> set (canonical_values cn)"
  by (auto simp: validate_checkpoint_value_def canonical_values_def Let_def
      validate_budget_range_def validate_timeline_def validate_style_preference_def
      validate_priority_feature_def)

text \<open>
  Claim C1, as stated, fails: the handler overwrites a filled field. The journey has the
  room ``kitchen''; the call \<^verbatim>\<open>update_journey(1, "room", "bathroom")\<close> succeeds and the
  stored room becomes ``bathroom''.
\<close>

theorem first_write_wins_counterexample:
  "room room_known = Some ''kitchen'' \<and>
   update_journey 9 [room_known] (Some 1) (Some ''room'') (Some ''bathroom'') =
     (Success ''room'' ''bathroom'' 1,
      [room_known\<lparr>room := Some ''bathroom'', updated_at := 9\<rparr>])"
  by code_simp

text \<open>
  Claim C1, amended. The tool handler does not look at the current value of the field: a
  call that passes its checks (non-zero journey id, one of the six checkpoint names, a
  non-empty value, an existing journey) succeeds, sets the named checkpoint field to the
  model's value whether the field was null or filled, and leaves the five other checkpoint
  fields as they were. On the automatic path only the choice of the target respects filled
  fields: the checkpoint that \<^verbatim>\<open>_get_next_checkpoint_to_extract\<close> names is always a
  field that is null or empty.
\<close>

theorem handler_writes_named_field:
  assumes "jid \<noteq> 0" and "cn \<in> set valid_checkpoints" and "v \<noteq> []"
    and "get_journey db jid = Some j"
  shows "fst (update_journey t db (Some jid) (Some cn) (Some v)) = Success cn v jid \<and>
    (case get_journey (snd (update_journey t db (Some jid) (Some cn) (Some v))) jid of
       Some j' \<Rightarrow>
         checkpoint_field cn j' = Some v \<and>
         (\<forall>c. c \<noteq> cn \<longrightarrow> checkpoint_field c j' = checkpoint_field c j)
     | None \<Rightarrow> False) \<and>
    (\<forall>c. snd (get_next_checkpoint_to_extract j) = Some c \<longrightarrow> \<not> truthy (checkpoint_field c j))"
proof (intro conjI)
  show "fst (update_journey t db (Some jid) (Some cn) (Some v)) = Success cn v jid"
    using assms by (rule update_journey_accepted(1))
next
  from update_journey_accepted(2) [OF assms, of t] obtain j' where
    "get_journey (snd (update_journey t db (Some jid) (Some cn) (Some v))) jid = Some j'"
    "\<forall>c. checkpoint_field c j' = (if c = cn then Some v else checkpoint_field c j)"
    by blast
  then show "case get_journey (snd (update_journey t db (Some jid) (Some cn) (Some v))) jid of
       Some j' \<Rightarrow>
         checkpoint_field cn j' = Some v \<and>
         (\<forall>c. c \<noteq> cn \<longrightarrow> checkpoint_field c j' = checkpoint_field c j)
     | None \<Rightarrow> False"
    by simp
next
  show "\<forall>c. snd (get_next_checkpoint_to_extract j) = Some c \<longrightarrow>
      \<not> truthy (checkpoint_field c j)"
    by (simp add: target_unfilled)
qed

theorem handler_writes_named_field_witness:
  "(1::int) \<noteq> 0 \<and> ''room'' \<in> set valid_checkpoints \<and> ''bathroom'' \<noteq> [] \<and>
   get_journey [room_known] 1 = Some room_known \<and>
   room room_known = Some ''kitchen'' \<and>
   fst (update_journey 9 [room_known] (Some 1) (Some ''room'') (Some ''bathroom'')) =
     Success ''room'' ''bathroom'' 1 \<and>
   (case get_journey
           (snd (update_journey 9 [room_known] (Some 1) (Some ''room'') (Some ''bathroom''))) 1 of
      Some j' \<Rightarrow>
        checkpoint_field ''room'' j' = Some ''bathroom'' \<and>
        (\<forall>c. c \<noteq> ''room'' \<longrightarrow> checkpoint_field c j' = checkpoint_field c room_known)
    | None \<Rightarrow> False) \<and>
   snd (get_next_checkpoint_to_extract room_known) = Some ''renovation_purpose'' \<and>
   \<not> truthy (checkpoint_field ''renovation_purpose'' room_known)"
proof -
  have h1: "(1::int) \<noteq> 0" by simp
  have h2: "''room'' \<in> set valid_checkpoints" by code_simp
  have h3: "''bathroom'' \<noteq> []" by simp
  have h4: "get_journey [room_known] 1 = Some room_known" by code_simp
  have k: "room room_known = Some ''kitchen''" by code_simp
  have n: "snd (get_next_checkpoint_to_extract room_known) = Some ''renovation_purpose''"
    by code_simp
  note t = handler_writes_named_field [OF h1 h2 h3 h4, of 9]
  note u = t [THEN conjunct2, THEN conjunct2, THEN spec, THEN mp, OF n]
  from h1 h2 h3 h4 k t [THEN conjunct1] t [THEN conjunct2, THEN conjunct1] n u
  show ?thesis by (intro conjI)
qed

text \<open>
  Claim C2, as stated, fails: the handler commits an update for a checkpoint that is not
  the target. For a new journey the target is \<open>room\<close>; the call
  \<^verbatim>\<open>update_journey(1, "style_preference", "modern")\<close> succeeds and the style is stored.
\<close>

theorem target_only_counterexample:
  "snd (get_next_checkpoint_to_extract new_journey) = Some ''room'' \<and>
   update_journey 9 [new_journey] (Some 1) (Some ''style_preference'') (Some ''modern'') =
     (Success ''style_preference'' ''modern'' 1,
      [new_journey\<lparr>style_preference := Some ''modern'', updated_at := 9\<rparr>])"
  by code_simp

text \<open>
  Claim C2, amended. The target is the first checkpoint of the current milestone, in the
  order room, renovation_purpose / budget_range, timeline / style_preference,
  priority_feature, whose field is null or empty; it is named in the Sentinel's prompt and
  nowhere checked afterwards. The handler rejects a call, with an error result and the
  table unchanged, exactly when the journey id is missing or zero, the checkpoint name or
  the value is missing or empty, the name is not one of the six checkpoint names, or the
  journey does not exist. Every other call is committed, whether or not it names the
  target: it succeeds and the named field holds the value.
\<close>

theorem handler_guard:
  "snd (get_next_checkpoint_to_extract j) =
     find (\<lambda>c. \<not> truthy (checkpoint_field c j))
       (get_valid_checkpoints_for_milestone (current_milestone j)) \<and>
   (\<not> passes_checks db a b c \<longrightarrow>
      is_error (fst (update_journey t db a b c)) \<and> snd (update_journey t db a b c) = db) \<and>
   (passes_checks db a b c \<longrightarrow>
      (case (a, b, c) of
         (Some jid, Some cn, Some v) \<Rightarrow>
           fst (update_journey t db a b c) = Success cn v jid \<and>
           (case get_journey (snd (update_journey t db a b c)) jid of
              Some j' \<Rightarrow> checkpoint_field cn j' = Some v
            | None \<Rightarrow> False)
       | _ \<Rightarrow> False))"
proof (intro conjI impI)
  show "snd (get_next_checkpoint_to_extract j) =
     find (\<lambda>c. \<not> truthy (checkpoint_field c j))
       (get_valid_checkpoints_for_milestone (current_milestone j))"
    by (rule target_is_first_unfilled)
next
  assume "\<not> passes_checks db a b c"
  then show "is_error (fst (update_journey t db a b c))" by (rule update_journey_rejected(2))
next
  assume "\<not> passes_checks db a b c"
  then show "snd (update_journey t db a b c) = db" by (rule update_journey_rejected(1))
next
  assume "passes_checks db a b c"
  then obtain jid cn v j0 where h: "a = Some jid" "b = Some cn" "c = Some v" "jid \<noteq> 0"
    "v \<noteq> []" "cn \<in> set valid_checkpoints" "get_journey db jid = Some j0"
    by (cases a; cases b; cases c) (auto simp: passes_checks_def)
  from update_journey_accepted(2) [OF h(4) h(6) h(5) h(7), of t] obtain j' where
    "get_journey (snd (update_journey t db (Some jid) (Some cn) (Some v))) jid = Some j'"
    "\<forall>c. checkpoint_field c j' = (if c = cn then Some v else checkpoint_field c j0)"
    by blast
  with h update_journey_accepted(1) [OF h(4) h(6) h(5) h(7), of t]
  show "case (a, b, c) of
         (Some jid, Some cn, Some v) \<Rightarrow>
           fst (update_journey t db a b c) = Success cn v jid \<and>
           (case get_journey (snd (update_journey t db a b c)) jid of
              Some j' \<Rightarrow> checkpoint_field cn j' = Some v
            | None \<Rightarrow> False)
       | _ \<Rightarrow> False"
    by simp
qed

theorem handler_guard_witness:
  "\<not> passes_checks [new_journey] (Some 1) (Some ''kitchen'') (Some ''room'') \<and>
   passes_checks [new_journey] (Some 1) (Some ''timeline'') (Some ''weeks'') \<and>
   snd (get_next_checkpoint_to_extract new_journey) = Some ''room'' \<and>
   is_error (fst (update_journey 9 [new_journey] (Some 1) (Some ''kitchen'') (Some ''room''))) \<and>
   snd (update_journey 9 [new_journey] (Some 1) (Some ''kitchen'') (Some ''room'')) =
     [new_journey] \<and>
   (case (Some (1::int), Some ''timeline'', Some ''weeks'') of
      (Some jid, Some cn, Some v) \<Rightarrow>
        fst (update_journey 9 [new_journey] (Some 1) (Some ''timeline'') (Some ''weeks'')) =
          Success cn v jid \<and>
        (case get_journey
                (snd (update_journey 9 [new_journey] (Some 1) (Some ''timeline'') (Some ''weeks'')))
                jid of
           Some j' \<Rightarrow> checkpoint_field cn j' = Some v
         | None \<Rightarrow> False)
    | _ \<Rightarrow> False)"
proof -
  have h1: "\<not> passes_checks [new_journey] (Some 1) (Some ''kitchen'') (Some ''room'')"
    by code_simp
  have h2: "passes_checks [new_journey] (Some 1) (Some ''timeline'') (Some ''weeks'')"
    by code_simp
  have h3: "snd (get_next_checkpoint_to_extract new_journey) = Some ''room''"
    by code_simp
  note r = handler_guard [where db = "[new_journey]" and a = "Some 1" and b = "Some ''kitchen''"
      and c = "Some ''room''" and t = 9 and j = new_journey]
  note s = handler_guard [where db = "[new_journey]" and a = "Some 1" and b = "Some ''timeline''"
      and c = "Some ''weeks''" and t = 9 and j = new_journey]
  note r1 = r [THEN conjunct2, THEN conjunct1, THEN mp, OF h1]
  note s1 = s [THEN conjunct2, THEN conjunct2, THEN mp, OF h2]
  from h1 h2 h3 r1 [THEN conjunct1] r1 [THEN conjunct2] s1 show ?thesis
    by (intro conjI)
qed

text \<open>
  Claim C3, as stated, fails: the handler stores the raw model string. The normalizer maps
  ``very affordable option'' to \<open>low\<close>, but the call
  \<^verbatim>\<open>update_journey(1, "budget_range", "very affordable option")\<close> stores the raw value,
  which is not a member of the budget vocabulary.
\<close>

theorem normalization_counterexample:
  "validate_checkpoint_value ''budget_range'' ''very affordable option'' = ''low'' \<and>
   ''very affordable option'' \<notin> set (canonical_values ''budget_range'') \<and>
   update_journey 9 [basics_done] (Some 1) (Some ''budget_range'')
       (Some ''very affordable option'') =
     (Success ''budget_range'' ''very affordable option'' 1,
      [basics_done\<lparr>budget_range := Some ''very affordable option'', updated_at := 9\<rparr>])"
  by code_simp

text \<open>
  Claim C3, amended. The Sentinel extraction path persists the model's value as the model
  gave it: after an accepted call the named field holds the raw value, and no code path
  calls the normalizer \<^verbatim>\<open>Sentinel._validate_checkpoint_value\<close>. The normalizer itself, for
  budget_range, timeline, style_preference and priority_feature, returns a member of the
  checkpoint's canonical vocabulary for every raw value.
\<close>

theorem handler_stores_raw_value:
  assumes "jid \<noteq> 0" and "cn \<in> set valid_checkpoints" and "v \<noteq> []"
    and "get_journey db jid = Some j"
  shows "(case get_journey (snd (update_journey t db (Some jid) (Some cn) (Some v))) jid of
       Some j' \<Rightarrow> checkpoint_field cn j' = Some v
     | None \<Rightarrow> False) \<and>
    (\<forall>name\<in>set [''budget_range'', ''timeline'', ''style_preference'', ''priority_feature''].
       \<forall>raw. validate_checkpoint_value name raw \<in> set (canonical_values name))"
proof (intro conjI)
  from update_journey_accepted(2) [OF assms, of t] obtain j' where
    "get_journey (snd (update_journey t db (Some jid) (Some cn) (Some v))) jid = Some j'"
    "\<forall>c. checkpoint_field c j' = (if c = cn then Some v else checkpoint_field c j)"
    by blast
  then show "case get_journey (snd (update_journey t db (Some jid) (Some cn) (Some v))) jid of
       Some j' \<Rightarrow> checkpoint_field cn j' = Some v
     | None \<Rightarrow> False"
    by simp
next
  show "\<forall>name\<in>set [''budget_range'', ''timeline'', ''style_preference'', ''priority_feature''].
       \<forall>raw. validate_checkpoint_value name raw \<in> set (canonical_values name)"
    using normalizer_range by blast
qed

theorem handler_stores_raw_value_witness:
  "(1::int) \<noteq> 0 \<and> ''budget_range'' \<in> set valid_checkpoints \<and>
   ''very affordable option'' \<noteq> [] \<and> get_journey [basics_done] 1 = Some basics_done \<and>
   (case get_journey
           (snd (update_journey 9 [basics_done] (Some 1) (Some ''budget_range'')
              (Some ''very affordable option''))) 1 of
      Some j' \<Rightarrow> checkpoint_field ''budget_range'' j' = Some ''very affordable option''
    | None \<Rightarrow> False) \<and>
   validate_checkpoint_value ''budget_range'' ''very affordable option'' \<in>
     set (canonical_values ''budget_range'')"
proof -
  have h1: "(1::int) \<noteq> 0" by simp
  have h2: "''budget_range'' \<in> set valid_checkpoints" by code_simp
  have h3: "''very affordable option'' \<noteq> []" by simp
  have h4: "get_journey [basics_done] 1 = Some basics_done" by code_simp
  have m: "''budget_range'' \<in>
      set [''budget_range'', ''timeline'', ''style_preference'', ''priority_feature'']"
    by simp
  note t = handler_stores_raw_value [OF h1 h2 h3 h4, of 9]
  note u = t [THEN conjunct2, THEN bspec, OF m, THEN spec, of "''very affordable option''"]
  from h1 h2 h3 h4 t [THEN conjunct1] u show ?thesis
    by (intro conjI)
qed

section \<open>The fallback keyword extractor\<close>

lemma scan_keywords_False [simp]: "scan_keywords kws m False = None"
  by (induction kws) auto

lemma scan_keywords_True:
  "scan_keywords kws m True = map_option snd (find (\<lambda>kv. py_in (fst kv) m) kws)"
  by (induction kws) auto

lemma extract_field_cases:
  "extract_field key kws m field =
     (if truthy field then []
      else case find (\<lambda>kv. py_in (fst kv) m) kws of
             Some kv \<Rightarrow> [(key, PyStr (snd kv))]
           | None \<Rightarrow> [])"
  by (simp add: extract_field_def scan_keywords_True split: option.splits)

lemma fallback_row_m1:
  "current_milestone j = 1 \<Longrightarrow>
   checkpoint_field c (row_after t (fallback_update_data j m) j) = fallback_field j m c"
  by (auto simp: fallback_update_data_def Let_def extract_field_cases row_after_def
      setattr_simps checkpoint_field_def fallback_field_def fallback_keywords_def
      get_valid_checkpoints_for_milestone_def apply_update_data_append split: option.splits)

lemma fallback_row_m2:
  "current_milestone j = 2 \<Longrightarrow>
   checkpoint_field c (row_after t (fallback_update_data j m) j) = fallback_field j m c"
  by (auto simp: fallback_update_data_def Let_def extract_field_cases row_after_def
      setattr_simps checkpoint_field_def fallback_field_def fallback_keywords_def
      get_valid_checkpoints_for_milestone_def apply_update_data_append split: option.splits)

lemma fallback_row_m3:
  "current_milestone j = 3 \<Longrightarrow>
   checkpoint_field c (row_after t (fallback_update_data j m) j) = fallback_field j m c"
  by (auto simp: fallback_update_data_def Let_def extract_field_cases row_after_def
      setattr_simps checkpoint_field_def fallback_field_def fallback_keywords_def
      get_valid_checkpoints_for_milestone_def apply_update_data_append split: option.splits)

lemma fallback_row_other:
  "current_milestone j \<notin> {1, 2, 3} \<Longrightarrow>
   checkpoint_field c (row_after t (fallback_update_data j m) j) = fallback_field j m c"
  by (simp add: fallback_update_data_def Let_def row_after_def
      checkpoint_field_def fallback_field_def get_valid_checkpoints_for_milestone_def)

lemma fallback_row:
  "checkpoint_field c (row_after t (fallback_update_data j m) j) = fallback_field j m c"
  using fallback_row_m1 fallback_row_m2 fallback_row_m3 fallback_row_other
  by (cases "current_milestone j = 1"; cases "current_milestone j = 2";
      cases "current_milestone j = 3") auto

lemma fallback_empty_row:
  "fallback_update_data j m = [] \<Longrightarrow> checkpoint_field c j = fallback_field j m c"
proof -
  assume "fallback_update_data j m = []"
  then have "row_after 0 (fallback_update_data j m) j = j\<lparr>updated_at := 0\<rparr>"
    by (simp add: row_after_def)
  moreover have "checkpoint_field c (j\<lparr>updated_at := 0\<rparr>) = checkpoint_field c j"
    by (simp add: checkpoint_field_def)
  ultimately show ?thesis using fallback_row [of c 0 j m] by simp
qed

lemma checkpoint_field_completion:
  "checkpoint_field c (row_after t (completion_update_data t j) j) = checkpoint_field c j"
  by (simp add: checkpoint_field_def completion_fields)

lemma JourneyHandler_check_row:
  assumes "get_journey db (id' j) = Some j"
  shows "\<exists>j'. get_journey (JourneyHandler_check_milestone_completion t db j) (id' j) = Some j' \<and>
     (\<forall>c. checkpoint_field c j' = checkpoint_field c j)"
proof (cases "completion_update_data t j = []")
  case True
  with assms show ?thesis by (simp add: JourneyHandler_check_milestone_completion_def)
next
  case False
  let ?r = "row_after t (completion_update_data t j) j"
  have "JourneyHandler_check_milestone_completion t db j = store_row ?r db"
    using assms False
    by (simp add: JourneyHandler_check_milestone_completion_def crud_update_journey_found Let_def)
  moreover have "get_journey (store_row ?r db) (id' j) = Some ?r"
    using assms by (rule get_after_update)
  ultimately show ?thesis by (simp add: checkpoint_field_completion)
qed

lemma analyze_message_row:
  assumes "get_journey db (id' journey) = Some journey"
  shows "\<exists>j'. fst (analyze_message_for_checkpoints t db journey m) = Inr (Some j') \<and>
     get_journey (snd (analyze_message_for_checkpoints t db journey m)) (id' journey) = Some j' \<and>
     (\<forall>c. checkpoint_field c j' = fallback_field journey m c)"
proof (cases "fallback_update_data journey m = []")
  case True
  with assms show ?thesis
    by (simp add: analyze_message_for_checkpoints_def fallback_empty_row)
next
  case False
  let ?r = "row_after t (fallback_update_data journey m) journey"
  let ?db1 = "store_row ?r db"
  have upd: "crud_update_journey t db (id' journey) (fallback_update_data journey m) =
      (Some ?r, ?db1)"
    using assms by (rule crud_update_journey_found)
  have get1: "get_journey ?db1 (id' journey) = Some ?r" using assms by (rule get_after_update)
  then have "get_journey ?db1 (id' ?r) = Some ?r" by simp
  from JourneyHandler_check_row [OF this, of t] obtain j' where
    j': "get_journey (JourneyHandler_check_milestone_completion t ?db1 ?r) (id' journey) = Some j'"
      "\<forall>c. checkpoint_field c j' = checkpoint_field c ?r"
    by auto
  have res: "analyze_message_for_checkpoints t db journey m =
      (Inr (Some j'), JourneyHandler_check_milestone_completion t ?db1 ?r)"
    using False upd get1 j'(1) by (simp add: analyze_message_for_checkpoints_def Let_def)
  from j'(2) have "\<forall>c. checkpoint_field c j' = fallback_field journey m c"
    by (simp add: fallback_row)
  with res j'(1) show ?thesis by simp
qed

text \<open>
  Claim C9, as stated, fails: the fallback extractor can write both checkpoints of the
  current milestone in one call. For a new journey the next unfilled checkpoint is \<open>room\<close>;
  on the message ``Kitchen repair'' the extractor writes the room and also the renovation
  purpose, the other checkpoint of the same milestone.
\<close>

theorem fallback_frame_counterexample:
  "snd (get_next_checkpoint_to_extract new_journey) = Some ''room'' \<and>
   renovation_purpose new_journey = None \<and>
   map (\<lambda>j. (room j, renovation_purpose j))
     (snd (analyze_message_for_checkpoints 9 [new_journey] new_journey ''Kitchen repair'')) =
     [(Some ''kitchen'', Some ''repair'')]"
  by code_simp

text \<open>
  Claim C9, amended. On a journey as stored, the extraction write of the fallback keyword
  extractor changes only checkpoint fields of the current milestone that are null or empty,
  possibly both of them in one call: each such field takes the value of the first keyword of
  its own dictionary, in the dictionary's order, that occurs in the lowered message, with
  no normalizer in between, and keeps its value when no keyword occurs. Every checkpoint
  field that is already filled and every field of another milestone is left unchanged, also
  by the evaluator run that follows. The call returns the journey as stored afterwards.
\<close>

theorem fallback_frame:
  assumes "get_journey db (id' journey) = Some journey"
  shows "case get_journey (snd (analyze_message_for_checkpoints t db journey m)) (id' journey) of
      Some j' \<Rightarrow>
        fst (analyze_message_for_checkpoints t db journey m) = Inr (Some j') \<and>
        (\<forall>c. checkpoint_field c j' =
           (if c \<in> set (get_valid_checkpoints_for_milestone (current_milestone journey)) \<and>
               \<not> truthy (checkpoint_field c journey)
            then (case find (\<lambda>kv. py_in (fst kv) (lower m)) (fallback_keywords c) of
                    Some kv \<Rightarrow> Some (snd kv)
                  | None \<Rightarrow> checkpoint_field c journey)
            else checkpoint_field c journey))
    | None \<Rightarrow> False"
proof -
  from analyze_message_row [OF assms, of t m] obtain j' where
    "fst (analyze_message_for_checkpoints t db journey m) = Inr (Some j')"
    "get_journey (snd (analyze_message_for_checkpoints t db journey m)) (id' journey) = Some j'"
    "\<forall>c. checkpoint_field c j' = fallback_field journey m c"
    by blast
  then show ?thesis by (simp add: fallback_field_def)
qed

theorem fallback_frame_witness:
  "get_journey [room_known] (id' room_known) = Some room_known \<and>
   map (\<lambda>j. (room j, renovation_purpose j, style_preference j))
     (snd (analyze_message_for_checkpoints 9 [room_known] room_known
        ''A modern bathroom, for repair'')) = [(Some ''kitchen'', Some ''repair'', None)] \<and>
   (case get_journey (snd (analyze_message_for_checkpoints 9 [room_known] room_known
          ''A modern bathroom, for repair'')) (id' room_known) of
      Some j' \<Rightarrow>
        fst (analyze_message_for_checkpoints 9 [room_known] room_known
          ''A modern bathroom, for repair'') = Inr (Some j') \<and>
        (\<forall>c. checkpoint_field c j' =
           (if c \<in> set (get_valid_checkpoints_for_milestone (current_milestone room_known)) \<and>
               \<not> truthy (checkpoint_field c room_known)
            then (case find (\<lambda>kv. py_in (fst kv) (lower ''A modern bathroom, for repair''))
                         (fallback_keywords c) of
                    Some kv \<Rightarrow> Some (snd kv)
                  | None \<Rightarrow> checkpoint_field c room_known)
            else checkpoint_field c room_known))
    | None \<Rightarrow> False)"
proof -
  have h: "get_journey [room_known] (id' room_known) = Some room_known" by code_simp
  have e: "map (\<lambda>j. (room j, renovation_purpose j, style_preference j))
     (snd (analyze_message_for_checkpoints 9 [room_known] room_known
        ''A modern bathroom, for repair'')) = [(Some ''kitchen'', Some ''repair'', None)]"
    by code_simp
  from h e fallback_frame [OF h, of 9 "''A modern bathroom, for repair''"] show ?thesis
    by (intro conjI)
qed

section \<open>The milestone never decreases\<close>

lemma milestones_grow_refl: "milestones_grow db db"
  by (simp add: milestones_grow_def)

lemma milestones_grow_trans:
  "milestones_grow db db1 \<Longrightarrow> milestones_grow db1 db2 \<Longrightarrow> milestones_grow db db2"
  unfolding milestones_grow_def by (meson order_trans)

lemma crud_update_grows:
  assumes "\<And>j. get_journey db k = Some j \<Longrightarrow>
      current_milestone j \<le> current_milestone (row_after t data j)"
  shows "milestones_grow db (snd (crud_update_journey t db k data))"
proof (cases "get_journey db k")
  case None
  then show ?thesis by (simp add: crud_update_journey_missing milestones_grow_refl)
next
  case (Some j)
  let ?r = "row_after t data j"
  have k: "id' j = k" using Some by (rule get_journey_id)
  have "snd (crud_update_journey t db k data) = store_row ?r db"
    using Some by (simp add: crud_update_journey_found)
  moreover have "milestones_grow db (store_row ?r db)"
    unfolding milestones_grow_def using Some k assms [OF Some]
    by (auto simp: get_journey_store_row)
  ultimately show ?thesis by simp
qed

lemma str_write_current:
  "(\<And>kv. kv \<in> set data \<Longrightarrow> fst kv \<in> set valid_checkpoints) \<Longrightarrow>
   current_milestone (apply_update_data data j) = current_milestone j"
proof (induction data j rule: apply_update_data.induct)
  case (1 j)
  then show ?case by simp
next
  case (2 key v rest j)
  from "2.prems" [of "(key, v)"] have "key \<in> set valid_checkpoints" by simp
  then have "current_milestone (setattr key v j) = current_milestone j"
    by (auto simp: valid_checkpoints_def setattr_simps)
  with "2.IH" "2.prems" show ?case by simp
qed

lemma extract_field_key:
  "kv \<in> set (extract_field key kws m field) \<Longrightarrow> fst kv = key"
  by (auto simp: extract_field_def split: option.splits)

lemma fallback_update_data_keys:
  "kv \<in> set (fallback_update_data j m) \<Longrightarrow> fst kv \<in> set valid_checkpoints"
  by (auto simp: fallback_update_data_def Let_def valid_checkpoints_def
      dest: extract_field_key split: if_splits)

lemma str_write_grows:
  assumes "\<And>kv. kv \<in> set data \<Longrightarrow> fst kv \<in> set valid_checkpoints"
  shows "milestones_grow db (snd (crud_update_journey t db k data))"
  by (rule crud_update_grows) (simp add: row_after_def str_write_current [OF assms])

lemma completion_grows:
  "milestones_grow db (snd (crud_update_journey t db k (completion_update_data t j)))"
proof (cases "get_journey db k = Some j")
  case True
  show ?thesis by (rule crud_update_grows) (use True in \<open>simp add: completion_fields\<close>)
next
  case False
  have "current_milestone (apply_update_data (completion_update_data t j) j0) =
      current_milestone j0" for j0
    by (simp add: completion_update_data_def setattr_simps)
  then show ?thesis by (intro crud_update_grows) (simp add: row_after_def)
qed

lemma update_milestone_grows:
  assumes "get_journey db (id' j) = Some j"
  shows "milestones_grow db (snd (update_milestone t db j))"
proof (cases "milestone_update_data t j = []")
  case True
  then show ?thesis by (simp add: update_milestone_def milestones_grow_refl)
next
  case False
  have "milestones_grow db (snd (crud_update_journey t db (id' j) (milestone_update_data t j)))"
    by (rule crud_update_grows) (use assms in \<open>simp add: milestone_mono\<close>)
  with False show ?thesis by (simp add: update_milestone_def Let_def)
qed

lemma check_milestone_completion_grows:
  "milestones_grow db (snd (check_milestone_completion t db k))"
  by (cases "get_journey db k")
     (simp_all add: check_milestone_completion_def Let_def milestones_grow_refl completion_grows)

lemma JourneyHandler_check_grows:
  "milestones_grow db (JourneyHandler_check_milestone_completion t db j)"
  by (simp add: JourneyHandler_check_milestone_completion_def Let_def milestones_grow_refl
      completion_grows)

lemma update_journey_grows: "milestones_grow db (snd (update_journey t db a b c))"
proof (cases "passes_checks db a b c")
  case False
  then show ?thesis by (simp add: update_journey_rejected(1) milestones_grow_refl)
next
  case True
  then obtain jid cn v j where h: "a = Some jid" "b = Some cn" "c = Some v" "jid \<noteq> 0"
    "v \<noteq> []" "cn \<in> set valid_checkpoints" "get_journey db jid = Some j"
    by (cases a; cases b; cases c) (auto simp: passes_checks_def)
  let ?r = "row_after t [(cn, PyStr v)] j"
  let ?db1 = "store_row ?r db"
  from h(6) have ne: "cn \<noteq> []" by (auto simp: valid_checkpoints_def)
  have upd: "crud_update_journey t db jid [(cn, PyStr v)] = (Some ?r, ?db1)"
    using h(7) by (rule crud_update_journey_found)
  have res: "snd (update_journey t db a b c) = snd (update_milestone t ?db1 ?r)"
    using h ne upd by (simp add: update_journey_def)
  have "milestones_grow db (snd (crud_update_journey t db jid [(cn, PyStr v)]))"
    by (rule str_write_grows) (use h(6) in simp)
  then have g1: "milestones_grow db ?db1" using upd by simp
  have "get_journey ?db1 jid = Some ?r" using h(7) by (rule get_after_update)
  moreover have "id' ?r = jid" using h(7) by (simp add: get_journey_id)
  ultimately have "get_journey ?db1 (id' ?r) = Some ?r" by simp
  then have "milestones_grow ?db1 (snd (update_milestone t ?db1 ?r))"
    by (rule update_milestone_grows)
  with g1 res show ?thesis by (auto intro: milestones_grow_trans)
qed

lemma analyze_message_grows:
  "milestones_grow db (snd (analyze_message_for_checkpoints t db j m))"
proof (cases "fallback_update_data j m = []")
  case True
  then show ?thesis by (simp add: analyze_message_for_checkpoints_def milestones_grow_refl)
next
  case False
  let ?db1 = "snd (crud_update_journey t db (id' j) (fallback_update_data j m))"
  have g1: "milestones_grow db ?db1"
    by (rule str_write_grows) (rule fallback_update_data_keys)
  show ?thesis
  proof (cases "get_journey ?db1 (id' j)")
    case None
    with False g1 show ?thesis by (simp add: analyze_message_for_checkpoints_def Let_def)
  next
    case (Some u)
    have "milestones_grow ?db1 (JourneyHandler_check_milestone_completion t ?db1 u)"
      by (rule JourneyHandler_check_grows)
    with g1 have "milestones_grow db (JourneyHandler_check_milestone_completion t ?db1 u)"
      by (rule milestones_grow_trans)
    with False Some show ?thesis by (simp add: analyze_message_for_checkpoints_def Let_def)
  qed
qed

lemma get_journey_append:
  "get_journey db k = Some j \<Longrightarrow> get_journey (db @ rows) k = Some j"
  by (induction db) (auto simp: get_journey_def)

lemma create_journey_grows: "milestones_grow db (snd (create_journey t db uid))"
  unfolding milestones_grow_def
  by (auto simp: create_journey_def Let_def dest: get_journey_append)

lemma step_grows: "milestones_grow db (step t ev db)"
proof (cases ev)
  case (Create uid)
  then show ?thesis by (simp add: create_journey_grows)
next
  case (UpdateCheckpoint k cn v)
  show ?thesis
  proof (cases "cn \<in> set valid_checkpoints")
    case True
    have "milestones_grow db (snd (crud_update_journey t db k [(cn, PyStr v)]))"
      by (rule str_write_grows) (use True in simp)
    with UpdateCheckpoint True show ?thesis
      by (simp add: update_checkpoint_def valid_checkpoints_def)
  next
    case False
    with UpdateCheckpoint show ?thesis
      by (simp add: update_checkpoint_def valid_checkpoints_def milestones_grow_refl)
  qed
next
  case (CheckCompletion k)
  then show ?thesis by (simp add: check_milestone_completion_grows)
next
  case (UpdateMilestone k)
  show ?thesis
  proof (cases "get_journey db k")
    case None
    with UpdateMilestone show ?thesis by (simp add: milestones_grow_refl)
  next
    case (Some j)
    then have "get_journey db (id' j) = Some j" by (simp add: get_journey_id)
    then have "milestones_grow db (snd (update_milestone t db j))"
      by (rule update_milestone_grows)
    with UpdateMilestone Some show ?thesis by simp
  qed
next
  case (SentinelUpdate a b c)
  then show ?thesis by (simp add: update_journey_grows)
next
  case (Fallback k m)
  then show ?thesis
    by (cases "get_journey db k") (simp_all add: milestones_grow_refl analyze_message_grows)
qed

text \<open>
  Across any sequence of events every journey stays in the table and its
  \<open>current_milestone\<close> never decreases.
\<close>

lemma current_milestone_non_decreasing: "milestones_grow db (run evs db)"
proof (induction evs arbitrary: db)
  case Nil
  then show ?case by (simp add: milestones_grow_refl)
next
  case (Cons a evs)
  obtain t ev where a: "a = (t, ev)" by (cases a)
  have "milestones_grow db (step t ev db)" by (rule step_grows)
  moreover have "milestones_grow (step t ev db) (run evs (step t ev db))" by (rule Cons.IH)
  ultimately show ?case using a by (auto intro: milestones_grow_trans)
qed

section \<open>What the Sentinel's analysis returns\<close>

lemma journey_was_updated_same: "\<not> journey_was_updated r r"
  by (simp add: journey_was_updated_def)














end
